theory Spec2Isabelle
  imports Main "HOL-Library.Multiset"
begin

section \<open>Go primitives used by the convergence engine\<close>

text \<open>
  A Go map read \<^verbatim>\<open>m[k]\<close> yields the zero value (the empty string) for a
  missing key.
\<close>

definition lookup :: "(string \<rightharpoonup> string) \<Rightarrow> string \<Rightarrow> string" where
  "lookup m k = (case m k of None \<Rightarrow> [] | Some v \<Rightarrow> v)"

text \<open>
  \<^verbatim>\<open>strings.Split(s, ":")\<close> for a one-character separator: the result is never
  empty, and the empty string splits into one empty segment.
\<close>

fun Split :: "string \<Rightarrow> char \<Rightarrow> string list" where
  "Split [] sep = [[]]"
| "Split (c # cs) sep =
     (if c = sep then [] # Split cs sep
      else (case Split cs sep of [] \<Rightarrow> [[c]] | w # ws \<Rightarrow> (c # w) # ws))"

text \<open>\<^verbatim>\<open>strings.Join(elems, sep)\<close>.\<close>

fun Join :: "string list \<Rightarrow> string \<Rightarrow> string" where
  "Join [] sep = []"
| "Join [x] sep = x"
| "Join (x # y # ys) sep = x @ sep @ Join (y # ys) sep"

text \<open>
  Go's \<^verbatim>\<open>int\<close> is a 64-bit two's complement integer here: values are kept
  as mathematical integers and \<open>wrap64\<close> is applied where the source adds.
\<close>

definition wrap64 :: "int \<Rightarrow> int" where
  "wrap64 x = (x + 2 ^ 63) mod 2 ^ 64 - 2 ^ 63"

definition digit_of :: "char \<Rightarrow> int option" where
  "digit_of = map_of (zip ''0123456789'' [0, 1, 2, 3, 4, 5, 6, 7, 8, 9])"

fun parse_digits :: "string \<Rightarrow> int \<Rightarrow> int option" where
  "parse_digits [] acc = Some acc"
| "parse_digits (c # cs) acc =
     (case digit_of c of None \<Rightarrow> None | Some d \<Rightarrow> parse_digits cs (acc * 10 + d))"

text \<open>
  \<^verbatim>\<open>strconv.Atoi\<close>: an optional sign, then at least one decimal digit and
  nothing else; a value outside the 64-bit range is an error as well. \<open>None\<close>
  stands for the returned error.
\<close>

definition Atoi :: "string \<Rightarrow> int option" where
  "Atoi s =
     (let neg = (s \<noteq> [] \<and> hd s = CHR ''-'');
          ds = (if s \<noteq> [] \<and> (hd s = CHR ''-'' \<or> hd s = CHR ''+'') then tl s else s)
      in if ds = [] then None
         else (case parse_digits ds 0 of
                 None \<Rightarrow> None
               | Some n \<Rightarrow>
                   (let v = (if neg then - n else n)
                    in if - (2 ^ 63) \<le> v \<and> v < 2 ^ 63 then Some v else None)))"

text \<open>\<^verbatim>\<open>strconv.Itoa\<close>.\<close>

fun nat_digits :: "nat \<Rightarrow> string" where
  "nat_digits n =
     (if n < 10 then [''0123456789'' ! n]
      else nat_digits (n div 10) @ [''0123456789'' ! (n mod 10)])"

definition Itoa :: "int \<Rightarrow> string" where
  "Itoa n = (if n < 0 then CHR ''-'' # nat_digits (nat (- n)) else nat_digits (nat n))"

section \<open>Data model\<close>

text \<open>
  \<^verbatim>\<open>containerType.Summary\<close>, with the fields the engine reads.
  \<open>NetworkSettings\<close> holds the entries of \<^verbatim>\<open>NetworkSettings.Networks\<close> as
  pairs (network name, NetworkID); \<open>Mounts\<close> holds pairs (Type, Name).
\<close>

record Summary =
  ID :: string
  Names :: "string list"
  Labels :: "string \<rightharpoonup> string"
  State :: string
  Created :: int
  NetworkSettings :: "(string \<times> string) list"
  Mounts :: "(string \<times> string) list"

type_synonym Containers = "Summary list"

text \<open>
  \<^verbatim>\<open>types.ServiceConfig\<close>. \<open>Networks\<close> lists the keys of the networks map
  and \<open>Volumes\<close> the pairs (Type, Source) of the volume entries; \<open>Provider\<close> is
  \<open>None\<close> for the nil pointer.
\<close>

record ServiceConfig =
  Name :: string
  ContainerName :: string
  Scale :: "int option"
  Provider :: "string option"
  ServiceLabels :: "string \<rightharpoonup> string"
  CustomLabels :: "string \<rightharpoonup> string"
  NetworkMode :: string
  Ipc :: string
  Pid :: string
  VolumesFrom :: "string list"
  Networks :: "string list"
  Volumes :: "(string \<times> string) list"

text \<open>
  Every error value the engine builds or passes on, one constructor per site.
  \<open>External\<close> is an error returned by a collaborator (the container runtime,
  the hash function, a plugin); \<open>Panic\<close> is a run-time panic, which no caller
  of the engine recovers from.
\<close>

datatype panic = IndexOutOfRange | NilDereference | NegativeLength

datatype error =
    DoubledContainerName string string
  | VolumeContainerMissing string
  | NetworkContainerMissing string
  | IpcContainerMissing string
  | PidContainerMissing string
  | AtoiError string
  | ContainerExitedError string int
  | NoHealthcheck string
  | ContainerUnhealthy string
  | UnexpectedHealthStatus string string
  | DependencyFailedToStart error
  | DidNotCompleteSuccessfully string int
  | External string
  | Panic panic

record convergence =
  services :: "string \<rightharpoonup> Containers"
  networks :: "(string \<rightharpoonup> string) option"
  volumes :: "(string \<rightharpoonup> string) option"

text \<open>
  Collaborators of the engine that live outside \<^verbatim>\<open>convergence.go\<close> are
  parameters of the model: \<^verbatim>\<open>Containers.sorted\<close>, \<^verbatim>\<open>ServiceHash\<close>,
  the constant \<^verbatim>\<open>api.Separator\<close> and \<^verbatim>\<open>utils.DurationSecondToInt\<close>.
\<close>

record collaborators =
  sorted_containers :: "Containers \<Rightarrow> Containers"
  ServiceHash :: "ServiceConfig \<Rightarrow> error + string"
  Separator :: string
  DurationSecondToInt :: "int option \<Rightarrow> int option"

text \<open>
  Modelled from the spec: the label keys and policy names of \<^verbatim>\<open>pkg/api\<close>
  and the reference prefixes, which are declared outside
  \<^verbatim>\<open>convergence.go\<close>; section 6 of the specification names them.
\<close>

definition ContainerNumberLabel :: string where
  "ContainerNumberLabel = ''container-number''"

definition ConfigHashLabel :: string where
  "ConfigHashLabel = ''config-hash''"

definition ImageDigestLabel :: string where
  "ImageDigestLabel = ''image-digest''"

definition ContainerReplaceLabel :: string where
  "ContainerReplaceLabel = ''replace''"

definition RecreateNever :: string where
  "RecreateNever = ''never''"

definition RecreateForce :: string where
  "RecreateForce = ''force''"

definition ContainerPrefix :: string where
  "ContainerPrefix = ''container:''"

definition ServicePrefix :: string where
  "ServicePrefix = ''service:''"

text \<open>
  Modelled from the spec: the mount type of a named volume, the container
  states (section 3 of the specification) and the health statuses (section
  4.7), constants of the engine's API and of \<^verbatim>\<open>containers.go\<close>.
\<close>

definition TypeVolume :: string where
  "TypeVolume = ''volume''"

definition ContainerRunning :: string where
  "ContainerRunning = ''running''"

definition ContainerCreated :: string where
  "ContainerCreated = ''created''"

definition ContainerRestarting :: string where
  "ContainerRestarting = ''restarting''"

definition ContainerExited :: string where
  "ContainerExited = ''exited''"

definition Healthy :: string where
  "Healthy = ''healthy''"

definition Unhealthy :: string where
  "Unhealthy = ''unhealthy''"

definition Starting :: string where
  "Starting = ''starting''"

text \<open>
  The conditions of a dependency: \<^verbatim>\<open>ServiceConditionRunningOrHealthy\<close> is
  declared in \<^verbatim>\<open>convergence.go\<close>; the other two are modelled from the spec
  (section 6 lists the strings).
\<close>

definition ServiceConditionRunningOrHealthy :: string where
  "ServiceConditionRunningOrHealthy = ''running_or_healthy''"

definition ServiceConditionHealthy :: string where
  "ServiceConditionHealthy = ''service_healthy''"

definition ServiceConditionCompletedSuccessfully :: string where
  "ServiceConditionCompletedSuccessfully = ''service_completed_successfully''"

text \<open>
  Modelled from the spec: \<^verbatim>\<open>GetScale\<close> of the service type (scale is an
  integer with default 1).
\<close>

definition GetScale :: "ServiceConfig \<Rightarrow> int" where
  "GetScale config = (case Scale config of None \<Rightarrow> 1 | Some n \<Rightarrow> n)"

text \<open>
  Modelled from the spec: \<^verbatim>\<open>getDependentServiceFromMode\<close> yields the service
  name of a mode of the form \<^verbatim>\<open>service:<name>\<close> and the empty string otherwise.
\<close>

definition getDependentServiceFromMode :: "string \<Rightarrow> string" where
  "getDependentServiceFromMode mode =
     (if take (length ServicePrefix) mode = ServicePrefix
      then drop (length ServicePrefix) mode else [])"

section \<open>Observed state store\<close>

definition getObservedState :: "convergence \<Rightarrow> string \<Rightarrow> Containers" where
  "getObservedState c serviceName =
     (case services c serviceName of None \<Rightarrow> [] | Some cs \<Rightarrow> cs)"

definition setObservedState :: "convergence \<Rightarrow> string \<Rightarrow> Containers \<Rightarrow> convergence" where
  "setObservedState c serviceName containers =
     c\<lparr>services := (services c)(serviceName \<mapsto> containers)\<rparr>"

text \<open>
  A slice handed out by the store shares its backing array with the store's
  entry: sorting it in place reorders the entry. A nil slice (no entry) stays nil.
\<close>

definition reorderObservedState :: "convergence \<Rightarrow> string \<Rightarrow> Containers \<Rightarrow> convergence" where
  "reorderObservedState c serviceName containers =
     (case services c serviceName of
        None \<Rightarrow> c
      | Some _ \<Rightarrow> setObservedState c serviceName containers)"

section \<open>Scale and reference resolution\<close>

definition getScale :: "ServiceConfig \<Rightarrow> error + int" where
  "getScale config =
     (let scale = GetScale config
      in if scale > 1 \<and> ContainerName config \<noteq> []
         then Inl (DoubledContainerName (Name config) (ContainerName config))
         else Inr scale)"

text \<open>
  \<^verbatim>\<open>resolveVolumeFrom\<close> rewrites the entries in place, so an error (or a panic)
  leaves the entries before it rewritten. The loop returns the store, the
  entries as they are when it stops, and the error if any. Reading index 1 of a
  split of one segment panics, and so does reading index 0 of what
  \<^verbatim>\<open>sorted\<close> returns, should that be empty. \<^verbatim>\<open>sorted\<close> sorts the slice of
  the store in place.
\<close>

fun resolveVolumeFrom_loop ::
  "collaborators \<Rightarrow> convergence \<Rightarrow> string list \<Rightarrow> convergence \<times> string list \<times> error option" where
  "resolveVolumeFrom_loop k c [] = (c, [], None)"
| "resolveVolumeFrom_loop k c (vol # rest) =
     (let spec = Split vol CHR '':''
      in if length spec = 0 then
           (case resolveVolumeFrom_loop k c rest of (c', rest', e) \<Rightarrow> (c', vol # rest', e))
         else if spec ! 0 = ''container'' then
           (if length spec \<le> 1 then (c, vol # rest, Some (Panic IndexOutOfRange))
            else (case resolveVolumeFrom_loop k c rest of
                    (c', rest', e) \<Rightarrow> (c', (spec ! 1) # rest', e)))
         else
           (let name = spec ! 0;
                dependencies = getObservedState c name
            in if length dependencies = 0 then
                 (c, vol # rest, Some (VolumeContainerMissing name))
               else
                 (case sorted_containers k dependencies of
                    [] \<Rightarrow> (c, vol # rest, Some (Panic IndexOutOfRange))
                  | d # ds \<Rightarrow>
                      (case resolveVolumeFrom_loop k
                              (reorderObservedState c name (d # ds)) rest of
                         (c', rest', e) \<Rightarrow> (c', ID d # rest', e)))))"

definition resolveVolumeFrom ::
  "collaborators \<Rightarrow> convergence \<Rightarrow> ServiceConfig \<Rightarrow> convergence \<times> ServiceConfig \<times> error option" where
  "resolveVolumeFrom k c service =
     (case resolveVolumeFrom_loop k c (VolumesFrom service) of
        (c', vols, e) \<Rightarrow> (c', service\<lparr>VolumesFrom := vols\<rparr>, e))"

text \<open>
  One of the three blocks of \<^verbatim>\<open>resolveSharedNamespaces\<close>: the mode string,
  and the error the block builds when the referenced service has no container.
\<close>

definition resolveMode ::
  "collaborators \<Rightarrow> (string \<Rightarrow> error) \<Rightarrow> convergence \<Rightarrow> string \<Rightarrow>
   convergence \<times> string \<times> error option" where
  "resolveMode k missing c str =
     (let name = getDependentServiceFromMode str
      in if name \<noteq> [] then
           (let dependencies = getObservedState c name
            in if length dependencies = 0 then (c, str, Some (missing name))
               else (case sorted_containers k dependencies of
                       [] \<Rightarrow> (c, str, Some (Panic IndexOutOfRange))
                     | d # ds \<Rightarrow>
                         (reorderObservedState c name (d # ds), ContainerPrefix @ ID d, None)))
         else (c, str, None))"

definition resolveSharedNamespaces ::
  "collaborators \<Rightarrow> convergence \<Rightarrow> ServiceConfig \<Rightarrow> convergence \<times> ServiceConfig \<times> error option" where
  "resolveSharedNamespaces k c service =
     (case resolveMode k NetworkContainerMissing c (NetworkMode service) of
        (c1, _, Some e) \<Rightarrow> (c1, service, Some e)
      | (c1, nm, None) \<Rightarrow>
          (let service1 = service\<lparr>NetworkMode := nm\<rparr>
           in case resolveMode k IpcContainerMissing c1 (Ipc service1) of
                (c2, _, Some e) \<Rightarrow> (c2, service1, Some e)
              | (c2, ipc, None) \<Rightarrow>
                  (let service2 = service1\<lparr>Ipc := ipc\<rparr>
                   in case resolveMode k PidContainerMissing c2 (Pid service2) of
                        (c3, _, Some e) \<Rightarrow> (c3, service2, Some e)
                      | (c3, pid, None) \<Rightarrow> (c3, service2\<lparr>Pid := pid\<rparr>, None))))"

definition resolveServiceReferences ::
  "collaborators \<Rightarrow> convergence \<Rightarrow> ServiceConfig \<Rightarrow> convergence \<times> ServiceConfig \<times> error option" where
  "resolveServiceReferences k c service =
     (case resolveVolumeFrom k c service of
        (c1, service1, Some e) \<Rightarrow> (c1, service1, Some e)
      | (c1, service1, None) \<Rightarrow> resolveSharedNamespaces k c1 service1)"

section \<open>Divergence detector\<close>

fun checkExpectedNetworks_loop :: "string list \<Rightarrow> Summary \<Rightarrow> (string \<rightharpoonup> string) \<Rightarrow> bool" where
  "checkExpectedNetworks_loop [] actual nets = False"
| "checkExpectedNetworks_loop (net # rest) actual nets =
     (let id = lookup nets net
      in if id = ''swarm'' then checkExpectedNetworks_loop rest actual nets
         else if \<not> list_ex (\<lambda>settings. snd settings = id) (NetworkSettings actual) then True
         else checkExpectedNetworks_loop rest actual nets)"

definition checkExpectedNetworks :: "ServiceConfig \<Rightarrow> Summary \<Rightarrow> (string \<rightharpoonup> string) \<Rightarrow> bool" where
  "checkExpectedNetworks expected actual nets =
     checkExpectedNetworks_loop (Networks expected) actual nets"

fun checkExpectedVolumes_loop ::
  "(string \<times> string) list \<Rightarrow> Summary \<Rightarrow> (string \<rightharpoonup> string) \<Rightarrow> bool" where
  "checkExpectedVolumes_loop [] actual vols = False"
| "checkExpectedVolumes_loop (vol # rest) actual vols =
     (if fst vol \<noteq> TypeVolume then checkExpectedVolumes_loop rest actual vols
      else if snd vol = [] then checkExpectedVolumes_loop rest actual vols
      else (let id = lookup vols (snd vol)
            in if \<not> list_ex (\<lambda>mount. fst mount = TypeVolume \<and> snd mount = id) (Mounts actual)
               then True
               else checkExpectedVolumes_loop rest actual vols))"

definition checkExpectedVolumes :: "ServiceConfig \<Rightarrow> Summary \<Rightarrow> (string \<rightharpoonup> string) \<Rightarrow> bool" where
  "checkExpectedVolumes expected actual vols =
     checkExpectedVolumes_loop (Volumes expected) actual vols"

text \<open>
  \<^verbatim>\<open>mustRecreate\<close> returns the pair (decision, error) as the source does: a
  caller that drops the error still reads the decision.
\<close>

definition mustRecreate ::
  "collaborators \<Rightarrow> convergence \<Rightarrow> ServiceConfig \<Rightarrow> Summary \<Rightarrow> string \<Rightarrow> bool \<times> error option" where
  "mustRecreate k c expected actual policy =
     (if policy = RecreateNever then (False, None)
      else if policy = RecreateForce then (True, None)
      else (case ServiceHash k expected of
              Inl err \<Rightarrow> (False, Some err)
            | Inr configHash \<Rightarrow>
                (let configChanged = (lookup (Labels actual) ConfigHashLabel \<noteq> configHash);
                     imageUpdated = (lookup (Labels actual) ImageDigestLabel
                                      \<noteq> lookup (CustomLabels expected) ImageDigestLabel)
                 in if configChanged \<or> imageUpdated then (True, None)
                    else if networks c \<noteq> None \<and> State actual = ''running''
                            \<and> checkExpectedNetworks expected actual (the (networks c))
                      then (True, None)
                    else if volumes c \<noteq> None
                            \<and> checkExpectedVolumes expected actual (the (volumes c))
                      then (True, None)
                    else (False, None))))"

section \<open>Container names and numbers\<close>

definition getDefaultContainerName :: "collaborators \<Rightarrow> string \<Rightarrow> string \<Rightarrow> string \<Rightarrow> string" where
  "getDefaultContainerName k projectName serviceName index =
     Join [projectName, serviceName, index] (Separator k)"

definition getContainerName :: "collaborators \<Rightarrow> string \<Rightarrow> ServiceConfig \<Rightarrow> int \<Rightarrow> string" where
  "getContainerName k projectName service number =
     (let name = getDefaultContainerName k projectName (Name service) (Itoa number)
      in if ContainerName service \<noteq> [] then ContainerName service else name)"

fun nextContainerNumber_loop :: "Containers \<Rightarrow> int \<Rightarrow> int" where
  "nextContainerNumber_loop [] maxNumber = maxNumber"
| "nextContainerNumber_loop (c # cs) maxNumber =
     (case Atoi (lookup (Labels c) ContainerNumberLabel) of
        None \<Rightarrow> nextContainerNumber_loop cs maxNumber
      | Some n \<Rightarrow>
          (if n > maxNumber then nextContainerNumber_loop cs n
           else nextContainerNumber_loop cs maxNumber))"

definition nextContainerNumber :: "Containers \<Rightarrow> int" where
  "nextContainerNumber containers = wrap64 (nextContainerNumber_loop containers 0 + 1)"

definition mergeLabels :: "(string \<rightharpoonup> string) list \<Rightarrow> (string \<rightharpoonup> string)" where
  "mergeLabels ls = foldl (\<lambda>merged l. merged ++ l) Map.empty ls"

section \<open>The order in which a service's containers are visited\<close>

text \<open>
  The comparison handed to \<^verbatim>\<open>sort.Slice\<close> in \<^verbatim>\<open>ensureService\<close>. The error of
  \<^verbatim>\<open>mustRecreate\<close> is dropped there.
\<close>

definition obsolete_first ::
  "collaborators \<Rightarrow> convergence \<Rightarrow> ServiceConfig \<Rightarrow> string \<Rightarrow> Summary \<Rightarrow> Summary \<Rightarrow> bool" where
  "obsolete_first k c service recreate ci cj =
     (if fst (mustRecreate k c service ci recreate) then True
      else if fst (mustRecreate k c service cj recreate) then False
      else (case (Atoi (lookup (Labels ci) ContainerNumberLabel),
                  Atoi (lookup (Labels cj) ContainerNumberLabel)) of
              (Some ni, Some nj) \<Rightarrow> ni > nj
            | _ \<Rightarrow> Created ci < Created cj))"

text \<open>
  \<^verbatim>\<open>sort.Slice\<close> belongs to Go's standard library, not to the repository.
  It is modelled by the insertion sort of the \<^verbatim>\<open>sort\<close> package, which is what
  the library runs on a slice of up to twelve elements (on a longer slice it
  runs a quicksort that this model does not follow): element \<open>i\<close> moves left
  for as long as it is less than its left neighbour. \<open>insert_last lt ys x\<close>
  is the sorted prefix \<open>ys\<close> after \<open>x\<close>, which stands right after it, has
  moved.
\<close>

function insert_last :: "('a \<Rightarrow> 'a \<Rightarrow> bool) \<Rightarrow> 'a list \<Rightarrow> 'a \<Rightarrow> 'a list" where
  "insert_last lt ys x =
     (if ys = [] then [x]
      else if lt x (last ys) then insert_last lt (butlast ys) x @ [last ys]
      else ys @ [x])"
  by pat_completeness auto
termination
  by (relation "measure (\<lambda>(lt, ys, x). length ys)") auto

definition insertionSort :: "('a \<Rightarrow> 'a \<Rightarrow> bool) \<Rightarrow> 'a list \<Rightarrow> 'a list" where
  "insertionSort lt xs = foldl (insert_last lt) [] xs"

definition sort_Slice :: "('a \<Rightarrow> 'a \<Rightarrow> bool) \<Rightarrow> 'a list \<Rightarrow> 'a list" where
  "sort_Slice lt xs = insertionSort lt xs"

text \<open>
  Lines 131 to 153 of \<^verbatim>\<open>ensureService\<close>: the observed containers after
  \<^verbatim>\<open>sort.Slice\<close> and \<^verbatim>\<open>slices.Reverse\<close>, in the order the loop visits them.
\<close>

definition traversal ::
  "collaborators \<Rightarrow> convergence \<Rightarrow> ServiceConfig \<Rightarrow> string \<Rightarrow> Containers \<Rightarrow> Containers" where
  "traversal k c service recreate containers =
     rev (sort_Slice (obsolete_first k c service recreate) containers)"

section \<open>The container runtime and the recreate protocol\<close>

record createOptions =
  AutoRemove :: bool
  AttachStdin :: bool
  UseNetworkAliases :: bool
  OptLabels :: "string \<rightharpoonup> string"

text \<open>
  The calls \<^verbatim>\<open>recreateContainer\<close> makes, in the order it makes them:
  \<^verbatim>\<open>createMobyContainer\<close> with name, number, inherited container and options,
  \<^verbatim>\<open>ContainerStop\<close> with id and timeout, \<^verbatim>\<open>ContainerRemove\<close> with id and
  \<^verbatim>\<open>ContainerRename\<close> with old and new name.
\<close>

datatype engine_call =
    Create string int "Summary option" createOptions
  | Stop string "int option"
  | Remove string
  | Rename string string

text \<open>
  The engine port and the helpers of \<^verbatim>\<open>composeService\<close> that are defined in
  other files answer as the fields of this record say. \<open>firstError\<close> picks,
  among the errors of the tasks of one error group, the one \<^verbatim>\<open>Wait\<close> reports
  (the first to occur).
\<close>

record engine =
  createMobyContainer ::
    "ServiceConfig \<Rightarrow> string \<Rightarrow> int \<Rightarrow> Summary option \<Rightarrow> createOptions \<Rightarrow> Summary \<times> error option"
  ContainerStop :: "string \<Rightarrow> int option \<Rightarrow> error option"
  ContainerRemove :: "string \<Rightarrow> error option"
  ContainerRename :: "string \<Rightarrow> string \<Rightarrow> error option"
  ContainerStart :: "string \<Rightarrow> error option"
  stopAndRemoveContainer :: "Summary \<Rightarrow> error option"
  stop :: "string list \<Rightarrow> error option"
  runPlugin :: "ServiceConfig \<Rightarrow> error option"
  firstError :: "error list \<Rightarrow> error"

record Project =
  ProjectName :: string
  GetDependentsForService :: "ServiceConfig \<Rightarrow> string list"

text \<open>The zero value of \<^verbatim>\<open>containerType.Summary\<close>.\<close>

definition zero_Summary :: Summary where
  "zero_Summary =
     \<lparr>ID = [], Names = [], Labels = Map.empty, State = [], Created = 0,
      NetworkSettings = [], Mounts = []\<rparr>"

text \<open>
  \<^verbatim>\<open>recreateContainer\<close> returns the calls it made, the container it reports and
  its error. \<^verbatim>\<open>replaced.ID[:12]\<close> panics on an id shorter than twelve bytes.
\<close>

definition recreateContainer ::
  "collaborators \<Rightarrow> engine \<Rightarrow> Project \<Rightarrow> ServiceConfig \<Rightarrow> Summary \<Rightarrow> bool \<Rightarrow> int option
   \<Rightarrow> engine_call list \<times> Summary \<times> error option" where
  "recreateContainer k eng project service replaced inherit timeout =
     (case Atoi (lookup (Labels replaced) ContainerNumberLabel) of
        None \<Rightarrow> ([], zero_Summary, Some (AtoiError (lookup (Labels replaced) ContainerNumberLabel)))
      | Some number \<Rightarrow>
          (let inherited = (if inherit then Some replaced else None);
               replacedContainerName =
                 (if ContainerName service = []
                  then Name service @ Separator k @ Itoa number
                  else ContainerName service);
               name = getContainerName k (ProjectName project) service number
           in if length (ID replaced) < 12 then ([], zero_Summary, Some (Panic IndexOutOfRange))
              else
                (let tmpName = take 12 (ID replaced) @ ''_'' @ name;
                     opts = \<lparr>AutoRemove = False, AttachStdin = False, UseNetworkAliases = True,
                             OptLabels = (mergeLabels [ServiceLabels service, CustomLabels service])
                                           (ContainerReplaceLabel \<mapsto> replacedContainerName)\<rparr>;
                     create = Create tmpName number inherited opts
                 in case createMobyContainer eng service tmpName number inherited opts of
                      (created, Some err) \<Rightarrow> ([create], created, Some err)
                    | (created, None) \<Rightarrow>
                        (let timeoutInSecond = DurationSecondToInt k timeout;
                             stopped = Stop (ID replaced) timeoutInSecond
                         in case ContainerStop eng (ID replaced) timeoutInSecond of
                              Some err \<Rightarrow> ([create, stopped], created, Some err)
                            | None \<Rightarrow>
                                (case ContainerRemove eng (ID replaced) of
                                   Some err \<Rightarrow>
                                     ([create, stopped, Remove (ID replaced)], created, Some err)
                                 | None \<Rightarrow>
                                     ([create, stopped, Remove (ID replaced), Rename tmpName name],
                                      created, ContainerRename eng tmpName name))))))"

section \<open>Per-service reconciler\<close>

text \<open>
  What \<^verbatim>\<open>ensureService\<close> hands to its error group: a scale-down of a
  container, the recreate of a container whose result goes to a slot of
  \<^verbatim>\<open>updated\<close>, the start of a container, and the creation of a new container
  (slot, name, number, options).
\<close>

datatype task =
    ScaleDown Summary
  | Recreate nat Summary
  | StartContainer Summary
  | ScaleUp nat string int createOptions

text \<open>
  What \<^verbatim>\<open>ensureService\<close> does to the world outside the store, in program
  order: the provider hook, a stop of dependent services, and a task scheduled
  with \<^verbatim>\<open>eg.Go\<close>.
\<close>

datatype action =
    Plugin ServiceConfig
  | StopServices "string list"
  | Go task

definition stopDependentContainers ::
  "engine \<Rightarrow> Project \<Rightarrow> ServiceConfig \<Rightarrow> convergence \<Rightarrow> convergence \<times> action list \<times> error option" where
  "stopDependentContainers eng project service c =
     (let dependents = GetDependentsForService project service
      in if length dependents = 0 then (c, [], None)
         else (case stop eng dependents of
                 Some err \<Rightarrow> (c, [StopServices dependents], Some err)
               | None \<Rightarrow>
                   (foldl (\<lambda>c' name.
                       setObservedState c' name
                         (map (\<lambda>dependent. dependent\<lparr>State := ContainerExited\<rparr>)
                            (getObservedState c' name)))
                      c dependents,
                    [StopServices dependents], None)))"

text \<open>
  The loop of lines 154 to 201 over the indices of \<^verbatim>\<open>containers\<close>. The slice
  shares its backing array with the store's entry of the service, so element
  \<open>i\<close> is read from the store when the loop reaches it. The loop either leaves
  \<^verbatim>\<open>ensureService\<close> with an error (\<open>Inl\<close>) or ends (\<open>Inr\<close>).
\<close>

fun ensureService_loop ::
  "collaborators \<Rightarrow> engine \<Rightarrow> Project \<Rightarrow> ServiceConfig \<Rightarrow> string \<Rightarrow> int \<Rightarrow> nat list
   \<Rightarrow> convergence \<Rightarrow> Containers \<Rightarrow> action list
   \<Rightarrow> (convergence \<times> action list \<times> error) + (convergence \<times> Containers \<times> action list)" where
  "ensureService_loop k eng project service recreate expected [] c updated acts =
     Inr (c, updated, acts)"
| "ensureService_loop k eng project service recreate expected (i # rest) c updated acts =
     (let container = getObservedState c (Name service) ! i
      in if int i \<ge> expected then
           ensureService_loop k eng project service recreate expected rest c updated
             (acts @ [Go (ScaleDown container)])
         else
           (case mustRecreate k c service container recreate of
              (_, Some err) \<Rightarrow> Inl (c, acts, err)
            | (True, None) \<Rightarrow>
                (case stopDependentContainers eng project service c of
                   (c', stops, Some err) \<Rightarrow> Inl (c', acts @ stops, err)
                 | (c', stops, None) \<Rightarrow>
                     ensureService_loop k eng project service recreate expected rest c' updated
                       (acts @ stops @ [Go (Recreate i container)]))
            | (False, None) \<Rightarrow>
                (let starts =
                       (if State container = ContainerRunning \<or> State container = ContainerCreated
                           \<or> State container = ContainerRestarting
                           \<or> State container = ContainerExited
                        then [] else [Go (StartContainer container)])
                 in ensureService_loop k eng project service recreate expected rest c
                      (updated[i := container]) (acts @ starts))))"

text \<open>The scale-up loop of lines 203 to 221.\<close>

definition scaleUp_tasks ::
  "collaborators \<Rightarrow> Project \<Rightarrow> ServiceConfig \<Rightarrow> int \<Rightarrow> nat \<Rightarrow> int \<Rightarrow> action list" where
  "scaleUp_tasks k project service next actual expected =
     map (\<lambda>i. let number = wrap64 (next + int i);
                  name = getContainerName k (ProjectName project) service number;
                  opts = \<lparr>AutoRemove = False, AttachStdin = False, UseNetworkAliases = True,
                          OptLabels = mergeLabels [ServiceLabels service, CustomLabels service]\<rparr>
              in Go (ScaleUp (actual + i) name number opts))
       [0..<nat (expected - int actual)]"

text \<open>
  \<^verbatim>\<open>ensureService\<close> up to the call of \<^verbatim>\<open>eg.Wait\<close>: either it has returned
  (\<open>Inl\<close>: store, actions, result) or it has a store, the resolved service,
  the vector \<^verbatim>\<open>updated\<close> as the loop filled it, and the actions so far
  (\<open>Inr\<close>). \<^verbatim>\<open>make\<close> panics on a negative length. The slice
  \<^verbatim>\<open>containers\<close> is taken from the store before the references are resolved
  and shares its backing array with the store's entry, so what is sorted is the
  entry as the resolution left it, and the sort and the reversal reorder the
  entry.
\<close>

definition ensureService_schedule ::
  "collaborators \<Rightarrow> engine \<Rightarrow> Project \<Rightarrow> convergence \<Rightarrow> ServiceConfig \<Rightarrow> string
   \<Rightarrow> (convergence \<times> action list \<times> error option)
      + (convergence \<times> ServiceConfig \<times> Containers \<times> action list)" where
  "ensureService_schedule k eng project c service recreate =
     (case Provider service of
        Some _ \<Rightarrow> Inl (c, [Plugin service], runPlugin eng service)
      | None \<Rightarrow>
          (case getScale service of
             Inl err \<Rightarrow> Inl (c, [], Some err)
           | Inr expected \<Rightarrow>
               if expected < 0 then Inl (c, [], Some (Panic NegativeLength))
               else
                 (let actual = length (getObservedState c (Name service));
                      updated = replicate (nat expected) zero_Summary
                  in case resolveServiceReferences k c service of
                       (c1, service1, Some err) \<Rightarrow> Inl (c1, [], Some err)
                     | (c1, service1, None) \<Rightarrow>
                         (let containers = traversal k c1 service1 recreate
                                             (getObservedState c1 (Name service1));
                              c2 = reorderObservedState c1 (Name service1) containers
                          in case ensureService_loop k eng project service1 recreate expected
                                    [0..<length containers] c2 updated [] of
                               Inl (c3, acts, err) \<Rightarrow> Inl (c3, acts, Some err)
                             | Inr (c3, updated', acts) \<Rightarrow>
                                 (let next = nextContainerNumber
                                               (getObservedState c3 (Name service1))
                                  in Inr (c3, service1, updated',
                                          acts @ scaleUp_tasks k project service1 next actual
                                                   expected))))))"

text \<open>
  A task of the error group, run to its end. A task that panics (\<open>Inl\<close>)
  ends the program: nothing recovers a panic in a goroutine of the group. A
  task that returns (\<open>Inr\<close>) leaves what it wrote to \<^verbatim>\<open>updated\<close> and the
  error it returns. \<open>task_outcome\<close> tells the two apart in the result of a call.
  The group's context is dropped by \<^verbatim>\<open>ensureService\<close>, so no task is
  cancelled by the failure of another.
\<close>

fun task_outcome :: "Containers \<Rightarrow> error option \<Rightarrow> panic + (Containers \<times> error option)" where
  "task_outcome updated (Some (Panic p)) = Inl p"
| "task_outcome updated err = Inr (updated, err)"

fun run_task ::
  "collaborators \<Rightarrow> engine \<Rightarrow> Project \<Rightarrow> ServiceConfig \<Rightarrow> bool \<Rightarrow> int option \<Rightarrow> task
   \<Rightarrow> Containers \<Rightarrow> panic + (Containers \<times> error option)" where
  "run_task k eng project service inherit timeout (ScaleDown container) updated =
     task_outcome updated (stopAndRemoveContainer eng container)"
| "run_task k eng project service inherit timeout (Recreate i container) updated =
     (case recreateContainer k eng project service container inherit timeout of
        (calls, recreated, err) \<Rightarrow> task_outcome (updated[i := recreated]) err)"
| "run_task k eng project service inherit timeout (StartContainer container) updated =
     task_outcome updated (ContainerStart eng (ID container))"
| "run_task k eng project service inherit timeout (ScaleUp slot name number opts) updated =
     (case createMobyContainer eng service name number None opts of
        (container, err) \<Rightarrow> task_outcome (updated[slot := container]) err)"

text \<open>
  The tasks of the group, run to their end: the panic of a task (\<open>Inl\<close>), or
  \<^verbatim>\<open>updated\<close> as the tasks left it and the errors they returned (\<open>Inr\<close>).
\<close>

fun run_tasks ::
  "collaborators \<Rightarrow> engine \<Rightarrow> Project \<Rightarrow> ServiceConfig \<Rightarrow> bool \<Rightarrow> int option \<Rightarrow> action list
   \<Rightarrow> Containers \<Rightarrow> panic + (Containers \<times> error list)" where
  "run_tasks k eng project service inherit timeout [] updated = Inr (updated, [])"
| "run_tasks k eng project service inherit timeout (Go t # acts) updated =
     (case run_task k eng project service inherit timeout t updated of
        Inl p \<Rightarrow> Inl p
      | Inr (updated', e) \<Rightarrow>
          (case run_tasks k eng project service inherit timeout acts updated' of
             Inl p \<Rightarrow> Inl p
           | Inr (updated'', errs) \<Rightarrow>
               Inr (updated'', (case e of None \<Rightarrow> [] | Some err \<Rightarrow> [err]) @ errs)))"
| "run_tasks k eng project service inherit timeout (_ # acts) updated =
     run_tasks k eng project service inherit timeout acts updated"

text \<open>\<^verbatim>\<open>eg.Wait\<close> returns the first error that a task returned, if any.\<close>

definition Wait :: "engine \<Rightarrow> error list \<Rightarrow> error option" where
  "Wait eng errs = (if errs = [] then None else Some (firstError eng errs))"

text \<open>
  \<^verbatim>\<open>ensureService\<close>: the store it leaves, its actions and its result. When
  a task panics, line 224 is never reached: the store is the one the loop
  left and the result is the panic.
\<close>

definition ensureService ::
  "collaborators \<Rightarrow> engine \<Rightarrow> Project \<Rightarrow> convergence \<Rightarrow> ServiceConfig \<Rightarrow> string \<Rightarrow> bool
   \<Rightarrow> int option \<Rightarrow> convergence \<times> action list \<times> error option" where
  "ensureService k eng project c service recreate inherit timeout =
     (case ensureService_schedule k eng project c service recreate of
        Inl returned \<Rightarrow> returned
      | Inr (c3, service1, updated, acts) \<Rightarrow>
          (case run_tasks k eng project service1 inherit timeout acts updated of
             Inl p \<Rightarrow> (c3, acts, Some (Panic p))
           | Inr (updated', errs) \<Rightarrow>
               (setObservedState c3 (Name service1) updated', acts, Wait eng errs)))"

section \<open>Waiting for a dependency\<close>

text \<open>
  What \<^verbatim>\<open>ContainerInspect\<close> returns, with the fields the wait reads: the
  name, the state (a pointer, \<open>None\<close> when nil) with its status, exit code and
  health status (\<open>None\<close> when the health pointer is nil), and whether the
  configuration has a health check.
\<close>

record ContainerState =
  Status :: string
  ExitCode :: int
  Health :: "string option"

record InspectResponse =
  InspectName :: string
  InspectState :: "ContainerState option"
  Healthcheck :: bool

type_synonym inspector = "string \<Rightarrow> error + InspectResponse"

fun isServiceHealthy :: "inspector \<Rightarrow> Containers \<Rightarrow> bool \<Rightarrow> bool \<times> error option" where
  "isServiceHealthy inspect [] fallbackRunning = (True, None)"
| "isServiceHealthy inspect (c # cs) fallbackRunning =
     (case inspect (ID c) of
        Inl err \<Rightarrow> (False, Some err)
      | Inr container \<Rightarrow>
          if InspectName container = [] then (False, Some (Panic IndexOutOfRange))
          else
            (let name = tl (InspectName container)
             in case InspectState container of
                  None \<Rightarrow> (False, Some (Panic NilDereference))
                | Some st \<Rightarrow>
                    if Status st = ''exited'' then
                      (False, Some (ContainerExitedError name (ExitCode st)))
                    else if \<not> Healthcheck container \<and> fallbackRunning then
                      (Status st = ''running'', None)
                    else
                      (case Health st of
                         None \<Rightarrow> (False, Some (NoHealthcheck name))
                       | Some h \<Rightarrow>
                           if h = Healthy then isServiceHealthy inspect cs fallbackRunning
                           else if h = Unhealthy then (False, Some (ContainerUnhealthy name))
                           else if h = Starting then (False, None)
                           else (False, Some (UnexpectedHealthStatus name h)))))"

fun isServiceCompleted :: "inspector \<Rightarrow> Containers \<Rightarrow> bool \<times> int \<times> error option" where
  "isServiceCompleted inspect [] = (False, 0, None)"
| "isServiceCompleted inspect (c # cs) =
     (case inspect (ID c) of
        Inl err \<Rightarrow> (False, 0, Some err)
      | Inr container \<Rightarrow>
          (case InspectState container of
             None \<Rightarrow> isServiceCompleted inspect cs
           | Some st \<Rightarrow>
               if Status st = ''exited'' then (True, ExitCode st, None)
               else isServiceCompleted inspect cs))"

text \<open>
  How the task that waits for one dependency ends: the condition is met (the
  Healthy or Exited events, no error), the optional dependency is skipped with
  a warning (no error), the wait fails with an error, the task panics, the
  condition is not one the engine knows (a warning, no error), or the context
  is done (no error).
\<close>

datatype wait_outcome =
    Succeeded
  | SkippedWithWarning
  | Failed error
  | Panicked panic
  | Unsupported
  | ContextDone

text \<open>
  One round of the polling loop of \<^verbatim>\<open>waitDependencies\<close>, after the ticker
  fired: \<open>None\<close> when the loop goes on to the next tick.
\<close>

definition poll_dependency ::
  "inspector \<Rightarrow> string \<Rightarrow> string \<Rightarrow> bool \<Rightarrow> Containers \<Rightarrow> wait_outcome option" where
  "poll_dependency inspect dep condition required waitingFor =
     (if condition = ServiceConditionRunningOrHealthy then
        (case isServiceHealthy inspect waitingFor True of
           (_, Some (Panic p)) \<Rightarrow> Some (Panicked p)
         | (_, Some err) \<Rightarrow> if \<not> required then Some SkippedWithWarning else Some (Failed err)
         | (healthy, None) \<Rightarrow> if healthy then Some Succeeded else None)
      else if condition = ServiceConditionHealthy then
        (case isServiceHealthy inspect waitingFor False of
           (_, Some (Panic p)) \<Rightarrow> Some (Panicked p)
         | (_, Some err) \<Rightarrow>
             if \<not> required then Some SkippedWithWarning
             else Some (Failed (DependencyFailedToStart err))
         | (healthy, None) \<Rightarrow> if healthy then Some Succeeded else None)
      else if condition = ServiceConditionCompletedSuccessfully then
        (case isServiceCompleted inspect waitingFor of
           (_, _, Some err) \<Rightarrow> Some (Failed err)
         | (exited, code, None) \<Rightarrow>
             if exited then
               (if code = 0 then Some Succeeded
                else if \<not> required then Some SkippedWithWarning
                else Some (Failed (DidNotCompleteSuccessfully dep code)))
             else None)
      else Some Unsupported)"

text \<open>
  The polling loop over what the \<^verbatim>\<open>select\<close> receives: a tick, with the
  answers of the engine at that moment, or the end of the context. \<open>None\<close>:
  the loop is still polling when the observation ends.
\<close>

datatype tick = Tick inspector | Done

fun wait_loop ::
  "string \<Rightarrow> string \<Rightarrow> bool \<Rightarrow> Containers \<Rightarrow> tick list \<Rightarrow> wait_outcome option" where
  "wait_loop dep condition required waitingFor [] = None"
| "wait_loop dep condition required waitingFor (Done # ticks) = Some ContextDone"
| "wait_loop dep condition required waitingFor (Tick inspect # ticks) =
     (case poll_dependency inspect dep condition required waitingFor of
        None \<Rightarrow> wait_loop dep condition required waitingFor ticks
      | Some outcome \<Rightarrow> Some outcome)"

section \<open>Vocabulary of the properties\<close>

definition first_container_id :: "collaborators \<Rightarrow> convergence \<Rightarrow> string \<Rightarrow> string" where
  "first_container_id k c name = ID (hd (sorted_containers k (getObservedState c name)))"

definition referenced_services :: "ServiceConfig \<Rightarrow> string list" where
  "referenced_services service =
     filter (\<lambda>n. n \<noteq> ''container'') (map (\<lambda>vol. hd (Split vol CHR '':'')) (VolumesFrom service))
     @ filter (\<lambda>n. n \<noteq> [])
         (map getDependentServiceFromMode [NetworkMode service, Ipc service, Pid service])"

definition stable_order :: "collaborators \<Rightarrow> bool" where
  "stable_order k =
     (\<forall>cs. sorted_containers k (sorted_containers k cs) = sorted_containers k cs
           \<and> (sorted_containers k cs = [] \<longrightarrow> cs = []))"

definition missing_dependency :: "error \<Rightarrow> bool" where
  "missing_dependency e =
     (case e of VolumeContainerMissing _ \<Rightarrow> True | NetworkContainerMissing _ \<Rightarrow> True
      | IpcContainerMissing _ \<Rightarrow> True | PidContainerMissing _ \<Rightarrow> True | _ \<Rightarrow> False)"

definition same_order :: "collaborators \<Rightarrow> convergence \<Rightarrow> convergence \<Rightarrow> bool" where
  "same_order k c c' =
     (\<forall>n. sorted_containers k (getObservedState c' n) = sorted_containers k (getObservedState c n)
          \<and> (getObservedState c' n = [] \<longleftrightarrow> getObservedState c n = []))"

definition resolved_volume :: "collaborators \<Rightarrow> convergence \<Rightarrow> string \<Rightarrow> string" where
  "resolved_volume k c vol =
     (let spec = Split vol CHR '':''
      in if hd spec = ''container'' then spec ! 1 else first_container_id k c (hd spec))"

definition resolved_mode :: "collaborators \<Rightarrow> convergence \<Rightarrow> string \<Rightarrow> string" where
  "resolved_mode k c str =
     (let name = getDependentServiceFromMode str
      in if name \<noteq> [] then ContainerPrefix @ first_container_id k c name else str)"

definition volumes_resolved ::
  "collaborators \<Rightarrow> convergence \<Rightarrow> string list \<Rightarrow> convergence \<times> string list \<times> error option \<Rightarrow> bool" where
  "volumes_resolved k c vols r =
     (case r of (c', vols', e) \<Rightarrow>
        same_order k c c' \<and> length vols' = length vols \<and>
        (case e of
           None \<Rightarrow> vols' = map (resolved_volume k c) vols
                  \<and> (\<forall>v \<in> set vols. hd (Split v CHR '':'') \<noteq> ''container''
                        \<longrightarrow> getObservedState c (hd (Split v CHR '':'')) \<noteq> [])
         | Some err \<Rightarrow>
             (\<exists>i < length vols. hd (Split (vols ! i) CHR '':'') \<noteq> ''container''
                 \<and> getObservedState c (hd (Split (vols ! i) CHR '':'')) = []
                 \<and> err = VolumeContainerMissing (hd (Split (vols ! i) CHR '':''))
                 \<and> vols' ! i = vols ! i)))"

definition mode_resolved ::
  "collaborators \<Rightarrow> (string \<Rightarrow> error) \<Rightarrow> convergence \<Rightarrow> string \<Rightarrow>
   convergence \<times> string \<times> error option \<Rightarrow> bool" where
  "mode_resolved k missing c str r =
     (case r of (c', str', e) \<Rightarrow>
        same_order k c c' \<and>
        (if getDependentServiceFromMode str \<noteq> []
            \<and> getObservedState c (getDependentServiceFromMode str) = []
         then e = Some (missing (getDependentServiceFromMode str)) \<and> str' = str
         else e = None \<and> str' = resolved_mode k c str))"

definition mode_missing :: "convergence \<Rightarrow> string \<Rightarrow> bool" where
  "mode_missing c str =
     (getDependentServiceFromMode str \<noteq> []
      \<and> getObservedState c (getDependentServiceFromMode str) = [])"

definition namespaces_resolved ::
  "collaborators \<Rightarrow> convergence \<Rightarrow> ServiceConfig \<Rightarrow>
   convergence \<times> ServiceConfig \<times> error option \<Rightarrow> bool" where
  "namespaces_resolved k c service r =
     (case r of (c', service', e) \<Rightarrow>
        same_order k c c' \<and> VolumesFrom service' = VolumesFrom service \<and>
        (if mode_missing c (NetworkMode service) then
           e = Some (NetworkContainerMissing (getDependentServiceFromMode (NetworkMode service)))
           \<and> NetworkMode service' = NetworkMode service
         else NetworkMode service' = resolved_mode k c (NetworkMode service) \<and>
           (if mode_missing c (Ipc service) then
              e = Some (IpcContainerMissing (getDependentServiceFromMode (Ipc service)))
              \<and> Ipc service' = Ipc service
            else Ipc service' = resolved_mode k c (Ipc service) \<and>
              (if mode_missing c (Pid service) then
                 e = Some (PidContainerMissing (getDependentServiceFromMode (Pid service)))
                 \<and> Pid service' = Pid service
               else e = None \<and> Pid service' = resolved_mode k c (Pid service)))))"

definition recreate_calls ::
  "collaborators \<Rightarrow> Project \<Rightarrow> ServiceConfig \<Rightarrow> Summary \<Rightarrow> bool \<Rightarrow> int option \<Rightarrow> int
   \<Rightarrow> createOptions \<Rightarrow> engine_call list" where
  "recreate_calls k project service victim inherit timeout number opts =
     (let name = getContainerName k (ProjectName project) service number;
          tmpName = take 12 (ID victim) @ ''_'' @ name
      in [Create tmpName number (if inherit then Some victim else None) opts,
          Stop (ID victim) (DurationSecondToInt k timeout),
          Remove (ID victim),
          Rename tmpName name])"

definition parsed_numbers :: "Containers \<Rightarrow> int list" where
  "parsed_numbers containers =
     List.map_filter (\<lambda>c. Atoi (lookup (Labels c) ContainerNumberLabel)) containers"

definition scale_up_actions :: "action list \<Rightarrow> action list" where
  "scale_up_actions acts =
     filter (\<lambda>a. case a of Go (ScaleUp _ _ _ _) \<Rightarrow> True | _ \<Rightarrow> False) acts"





definition exit_code_of :: "inspector \<Rightarrow> Summary \<Rightarrow> int option" where
  "exit_code_of inspect x =
     (case inspect (ID x) of
        Inl _ \<Rightarrow> None
      | Inr r \<Rightarrow>
          (case InspectState r of
             None \<Rightarrow> None
           | Some st \<Rightarrow> if Status st = ''exited'' then Some (ExitCode st) else None))"

definition not_exited :: "inspector \<Rightarrow> Summary \<Rightarrow> bool" where
  "not_exited inspect x =
     (case inspect (ID x) of
        Inl _ \<Rightarrow> False
      | Inr r \<Rightarrow>
          (case InspectState r of None \<Rightarrow> True | Some st \<Rightarrow> Status st \<noteq> ''exited''))"

definition healthy_container :: "inspector \<Rightarrow> Summary \<Rightarrow> bool" where
  "healthy_container inspect x =
     (case inspect (ID x) of
        Inl _ \<Rightarrow> False
      | Inr r \<Rightarrow>
          InspectName r \<noteq> []
          \<and> (case InspectState r of
                None \<Rightarrow> False
              | Some st \<Rightarrow> Status st \<noteq> ''exited'' \<and> Health st = Some Healthy))"

section \<open>Example inputs\<close>

definition example_collaborators :: collaborators where
  "example_collaborators =
     \<lparr>sorted_containers = (\<lambda>cs. cs), ServiceHash = (\<lambda>_. Inr ''h1''), Separator = ''-'',
      DurationSecondToInt = (\<lambda>d. d)\<rparr>"

definition example_container :: "string \<Rightarrow> string \<Rightarrow> Summary" where
  "example_container ident number =
     \<lparr>ID = ident, Names = [], Labels = [ContainerNumberLabel \<mapsto> number, ConfigHashLabel \<mapsto> ''h1''],
      State = ''running'', Created = 0, NetworkSettings = [], Mounts = []\<rparr>"

definition example_store :: convergence where
  "example_store =
     \<lparr>services = [''db'' \<mapsto> [example_container ''0123456789abcdef'' ''1'']],
      networks = None, volumes = None\<rparr>"

definition example_service :: ServiceConfig where
  "example_service =
     \<lparr>Name = ''web'', ContainerName = [], Scale = None, Provider = None,
      ServiceLabels = Map.empty, CustomLabels = Map.empty,
      NetworkMode = ''service:db'', Ipc = [], Pid = [],
      VolumesFrom = [''container:x1'', ''db:ro''], Networks = [], Volumes = []\<rparr>"

definition example_engine :: engine where
  "example_engine =
     \<lparr>createMobyContainer = (\<lambda>service name number inherited opts.
         (\<lparr>ID = ''fedcba9876543210'', Names = [name], Labels = OptLabels opts, State = [],
           Created = 0, NetworkSettings = [], Mounts = []\<rparr>, None)),
      ContainerStop = (\<lambda>ident timeout. None),
      ContainerRemove = (\<lambda>ident. None),
      ContainerRename = (\<lambda>old new. None),
      ContainerStart = (\<lambda>ident. None),
      stopAndRemoveContainer = (\<lambda>container. None),
      stop = (\<lambda>names. None),
      runPlugin = (\<lambda>service. None),
      firstError = hd\<rparr>"

definition example_project :: Project where
  "example_project = \<lparr>ProjectName = ''shop'', GetDependentsForService = (\<lambda>service. [])\<rparr>"

definition example_db_service :: ServiceConfig where
  "example_db_service =
     \<lparr>Name = ''db'', ContainerName = [], Scale = Some 2, Provider = None,
      ServiceLabels = Map.empty, CustomLabels = Map.empty,
      NetworkMode = [], Ipc = [], Pid = [],
      VolumesFrom = [], Networks = [], Volumes = []\<rparr>"


definition example_named_service :: ServiceConfig where
  "example_named_service = example_db_service\<lparr>ContainerName := ''database''\<rparr>"

definition example_provider_service :: ServiceConfig where
  "example_provider_service = example_named_service\<lparr>Provider := Some ''plugin''\<rparr>"


definition example_response :: "string \<Rightarrow> string \<Rightarrow> int \<Rightarrow> string option \<Rightarrow> InspectResponse" where
  "example_response name status code health =
     \<lparr>InspectName = name,
      InspectState = Some \<lparr>Status = status, ExitCode = code, Health = health\<rparr>,
      Healthcheck = True\<rparr>"

definition example_inspector :: "(string \<times> InspectResponse) list \<Rightarrow> inspector" where
  "example_inspector table ident =
     (case map_of table ident of
        None \<Rightarrow> Inl (External ''no such container'')
      | Some r \<Rightarrow> Inr r)"

definition example_seed_inspector :: inspector where
  "example_seed_inspector =
     example_inspector
       [(''aaaaaaaaaaaaaaaa'', example_response ''/shop-seed-1'' ''exited'' 1 None),
        (''bbbbbbbbbbbbbbbb'', example_response ''/shop-seed-2'' ''exited'' 0 None)]"

definition example_db_inspector :: inspector where
  "example_db_inspector =
     example_inspector
       [(''aaaaaaaaaaaaaaaa'', example_response ''/shop-db-1'' ''running'' 0 (Some Starting)),
        (''bbbbbbbbbbbbbbbb'', example_response ''/shop-db-2'' ''running'' 0 (Some Unhealthy)),
        (''cccccccccccccccc'', example_response ''/shop-db-3'' ''running'' 0 (Some Healthy)),
        (''dddddddddddddddd'', example_response ''/shop-db-4'' ''exited'' 3 None),
        (''eeeeeeeeeeeeeeee'', example_response ''/shop-db-5'' ''running'' 0 None)]"






section \<open>Properties\<close>

lemma Split_not_Nil: "Split s sep \<noteq> []"
  by (induction s) (auto split: list.splits)

lemma Split_single: "Split s sep = [w] \<Longrightarrow> s = w"
proof (induction s arbitrary: w)
  case Nil
  then show ?case by simp
next
  case (Cons c cs)
  show ?case
  proof (cases "c = sep")
    case True
    with Cons.prems show ?thesis by (simp add: Split_not_Nil)
  next
    case False
    obtain v vs where sp: "Split cs sep = v # vs"
      using Split_not_Nil [of cs sep] by (cases "Split cs sep") auto
    with False Cons.prems have "vs = []" "w = c # v" by auto
    with sp Cons.IH [of v] show ?thesis by simp
  qed
qed

lemma Split_no_sep: "sep \<notin> set s \<Longrightarrow> Split s sep = [s]"
  by (induction s) auto

lemma Split_append_sep: "sep \<notin> set a \<Longrightarrow> Split (a @ sep # b) sep = a # Split b sep"
  by (induction a) auto

lemma Split_container_ref:
  "CHR '':'' \<notin> set ident \<Longrightarrow> Split (''container:'' @ ident) CHR '':'' = [''container'', ident]"
  using Split_append_sep [of "CHR '':''" "''container''" ident]
  by (simp add: Split_no_sep)

lemma Split_bare_container:
  "hd (Split vol CHR '':'') = ''container'' \<Longrightarrow> length (Split vol CHR '':'') \<le> 1 \<Longrightarrow> vol = ''container''"
proof -
  assume h: "hd (Split vol CHR '':'') = ''container''" and l: "length (Split vol CHR '':'') \<le> 1"
  obtain v vs where sp: "Split vol CHR '':'' = v # vs"
    using Split_not_Nil [of vol "CHR '':''"] by (cases "Split vol CHR '':''") auto
  with l have "vs = []" by simp
  with sp h have "Split vol CHR '':'' = [''container'']" by simp
  then show ?thesis by (rule Split_single)
qed

lemma same_order_refl: "same_order k c c"
  by (simp add: same_order_def)

lemma same_order_trans: "same_order k a b \<Longrightarrow> same_order k b c \<Longrightarrow> same_order k a c"
  by (simp add: same_order_def)

lemma same_order_reorder:
  assumes "stable_order k" "getObservedState c name \<noteq> []"
  shows "same_order k c (reorderObservedState c name (sorted_containers k (getObservedState c name)))"
  using assms
  by (auto simp: same_order_def stable_order_def reorderObservedState_def setObservedState_def
      getObservedState_def split: option.splits)

lemma same_order_first: "same_order k c c' \<Longrightarrow> first_container_id k c' n = first_container_id k c n"
  by (simp add: same_order_def first_container_id_def)

lemma same_order_empty: "same_order k c c' \<Longrightarrow> (getObservedState c' n = []) = (getObservedState c n = [])"
  by (simp add: same_order_def)

lemma same_order_resolved_volume:
  "same_order k c c' \<Longrightarrow> resolved_volume k c' vol = resolved_volume k c vol"
  by (simp add: resolved_volume_def Let_def same_order_first)

lemma resolveVolumeFrom_loop_step_container:
  assumes "hd (Split vol CHR '':'') = ''container''" "vol \<noteq> ''container''"
  shows "resolveVolumeFrom_loop k c (vol # rest) =
           (case resolveVolumeFrom_loop k c rest of
              (c', rest', e) \<Rightarrow> (c', (Split vol CHR '':'' ! 1) # rest', e))"
proof -
  have ne: "Split vol CHR '':'' \<noteq> []" by (rule Split_not_Nil)
  have "\<not> length (Split vol CHR '':'') \<le> 1"
    using assms Split_bare_container by blast
  moreover have "Split vol CHR '':'' ! 0 = ''container''"
    using ne assms(1) by (simp add: hd_conv_nth)
  ultimately show ?thesis using ne by (simp add: Let_def)
qed

lemma resolveVolumeFrom_loop_step_missing:
  assumes "hd (Split vol CHR '':'') \<noteq> ''container''"
    "getObservedState c (hd (Split vol CHR '':'')) = []"
  shows "resolveVolumeFrom_loop k c (vol # rest) =
           (c, vol # rest, Some (VolumeContainerMissing (hd (Split vol CHR '':''))))"
proof -
  have ne: "Split vol CHR '':'' \<noteq> []" by (rule Split_not_Nil)
  then have "Split vol CHR '':'' ! 0 = hd (Split vol CHR '':'')" by (simp add: hd_conv_nth)
  then show ?thesis using ne assms by (simp add: Let_def)
qed

lemma resolveVolumeFrom_loop_step_service:
  assumes "hd (Split vol CHR '':'') \<noteq> ''container''"
    "getObservedState c (hd (Split vol CHR '':'')) \<noteq> []"
    "stable_order k"
  shows "resolveVolumeFrom_loop k c (vol # rest) =
           (case resolveVolumeFrom_loop k
                   (reorderObservedState c (hd (Split vol CHR '':''))
                      (sorted_containers k (getObservedState c (hd (Split vol CHR '':''))))) rest of
              (c', rest', e) \<Rightarrow> (c', first_container_id k c (hd (Split vol CHR '':'')) # rest', e))"
proof -
  have ne: "Split vol CHR '':'' \<noteq> []" by (rule Split_not_Nil)
  then have z: "Split vol CHR '':'' ! 0 = hd (Split vol CHR '':'')" by (simp add: hd_conv_nth)
  obtain d ds where srt:
    "sorted_containers k (getObservedState c (hd (Split vol CHR '':''))) = d # ds"
    using assms(2,3) unfolding stable_order_def
    by (cases "sorted_containers k (getObservedState c (hd (Split vol CHR '':'')))") auto
  show ?thesis using ne z assms(1,2) srt
    by (simp add: Let_def first_container_id_def)
qed

lemma volumes_resolved_Cons:
  assumes r: "volumes_resolved k c1 rest (c', rest', e)"
    and so: "same_order k c c1"
    and v: "v' = resolved_volume k c vol"
    and ok: "hd (Split vol CHR '':'') \<noteq> ''container''
               \<longrightarrow> getObservedState c (hd (Split vol CHR '':'')) \<noteq> []"
  shows "volumes_resolved k c (vol # rest) (c', v' # rest', e)"
proof (cases e)
  case None
  with r so v ok show ?thesis
    by (auto simp: volumes_resolved_def same_order_resolved_volume same_order_empty
        intro: same_order_trans)
next
  case (Some err)
  with r obtain i where i: "i < length rest"
    "hd (Split (rest ! i) CHR '':'') \<noteq> ''container''"
    "getObservedState c1 (hd (Split (rest ! i) CHR '':'')) = []"
    "err = VolumeContainerMissing (hd (Split (rest ! i) CHR '':''))"
    "rest' ! i = rest ! i"
    by (auto simp: volumes_resolved_def)
  from i(3) so have "getObservedState c (hd (Split (rest ! i) CHR '':'')) = []"
    by (simp add: same_order_empty)
  with i have "Suc i < length (vol # rest) \<and>
      hd (Split ((vol # rest) ! Suc i) CHR '':'') \<noteq> ''container'' \<and>
      getObservedState c (hd (Split ((vol # rest) ! Suc i) CHR '':'')) = [] \<and>
      err = VolumeContainerMissing (hd (Split ((vol # rest) ! Suc i) CHR '':'')) \<and>
      (v' # rest') ! Suc i = (vol # rest) ! Suc i"
    by simp
  then have "\<exists>j < length (vol # rest).
      hd (Split ((vol # rest) ! j) CHR '':'') \<noteq> ''container'' \<and>
      getObservedState c (hd (Split ((vol # rest) ! j) CHR '':'')) = [] \<and>
      err = VolumeContainerMissing (hd (Split ((vol # rest) ! j) CHR '':'')) \<and>
      (v' # rest') ! j = (vol # rest) ! j"
    by blast
  moreover from r so have "same_order k c c'" "length (v' # rest') = length (vol # rest)"
    by (auto simp: volumes_resolved_def intro: same_order_trans)
  ultimately show ?thesis using Some
    by (simp add: volumes_resolved_def)
qed

lemma resolveVolumeFrom_loop_spec:
  assumes "stable_order k" "''container'' \<notin> set vols"
  shows "volumes_resolved k c vols (resolveVolumeFrom_loop k c vols)"
  using assms(2)
proof (induction vols arbitrary: c)
  case Nil
  show ?case by (simp add: volumes_resolved_def same_order_refl)
next
  case (Cons vol rest)
  let ?n = "hd (Split vol CHR '':'')"
  from Cons.prems have nb: "vol \<noteq> ''container''" and rest: "''container'' \<notin> set rest"
    by auto
  show ?case
  proof (cases "?n = ''container''")
    case True
    obtain c' rest' e where rr: "resolveVolumeFrom_loop k c rest = (c', rest', e)"
      by (cases "resolveVolumeFrom_loop k c rest") auto
    have "volumes_resolved k c rest (c', rest', e)"
      using Cons.IH [OF rest, of c] rr by simp
    then have "volumes_resolved k c (vol # rest) (c', (Split vol CHR '':'' ! 1) # rest', e)"
      by (rule volumes_resolved_Cons) (simp_all add: same_order_refl resolved_volume_def True)
    then show ?thesis
      using resolveVolumeFrom_loop_step_container [OF True nb, of k c rest] rr by simp
  next
    case False
    show ?thesis
    proof (cases "getObservedState c ?n = []")
      case True
      have "volumes_resolved k c (vol # rest)
              (c, vol # rest, Some (VolumeContainerMissing ?n))"
        using False True by (auto simp: volumes_resolved_def same_order_refl)
      then show ?thesis
        using resolveVolumeFrom_loop_step_missing [OF False True, of k rest] by simp
    next
      case ne: False
      let ?c1 = "reorderObservedState c ?n (sorted_containers k (getObservedState c ?n))"
      obtain c' rest' e where rr: "resolveVolumeFrom_loop k ?c1 rest = (c', rest', e)"
        by (cases "resolveVolumeFrom_loop k ?c1 rest") auto
      have so: "same_order k c ?c1"
        using assms(1) ne by (rule same_order_reorder)
      have "volumes_resolved k ?c1 rest (c', rest', e)"
        using Cons.IH [OF rest, of ?c1] rr by simp
      then have "volumes_resolved k c (vol # rest) (c', first_container_id k c ?n # rest', e)"
        using so by (rule volumes_resolved_Cons) (simp_all add: resolved_volume_def False ne)
      then show ?thesis
        using resolveVolumeFrom_loop_step_service [OF False ne assms(1), of rest] rr by simp
    qed
  qed
qed

lemma getDependentServiceFromMode_service:
  "getDependentServiceFromMode (''service:'' @ svc) = svc"
  by (simp add: getDependentServiceFromMode_def ServicePrefix_def)

lemma resolveMode_spec:
  assumes "stable_order k"
  shows "mode_resolved k missing c str (resolveMode k missing c str)"
proof (cases "getDependentServiceFromMode str = []")
  case True
  then show ?thesis
    by (simp add: mode_resolved_def resolveMode_def resolved_mode_def same_order_refl)
next
  case False
  let ?n = "getDependentServiceFromMode str"
  show ?thesis
  proof (cases "getObservedState c ?n = []")
    case True
    with False show ?thesis
      by (simp add: mode_resolved_def resolveMode_def same_order_refl)
  next
    case ne: False
    obtain d ds where srt: "sorted_containers k (getObservedState c ?n) = d # ds"
      using ne assms unfolding stable_order_def
      by (cases "sorted_containers k (getObservedState c ?n)") auto
    have "same_order k c (reorderObservedState c ?n (sorted_containers k (getObservedState c ?n)))"
      using assms ne by (rule same_order_reorder)
    with False ne srt show ?thesis
      by (simp add: mode_resolved_def resolveMode_def resolved_mode_def first_container_id_def)
  qed
qed

lemma same_order_mode_missing: "same_order k c c' \<Longrightarrow> mode_missing c' str = mode_missing c str"
  by (simp add: mode_missing_def same_order_empty)

lemma same_order_resolved_mode: "same_order k c c' \<Longrightarrow> resolved_mode k c' str = resolved_mode k c str"
  by (simp add: resolved_mode_def Let_def same_order_first)

lemma resolveSharedNamespaces_spec:
  assumes st: "stable_order k"
  shows "namespaces_resolved k c service (resolveSharedNamespaces k c service)"
proof -
  obtain c1 nm e1 where r1:
    "resolveMode k NetworkContainerMissing c (NetworkMode service) = (c1, nm, e1)"
    by (cases "resolveMode k NetworkContainerMissing c (NetworkMode service)") auto
  have m1: "mode_resolved k NetworkContainerMissing c (NetworkMode service) (c1, nm, e1)"
    using resolveMode_spec [OF st, of NetworkContainerMissing c "NetworkMode service"] r1 by simp
  then have so1: "same_order k c c1" by (simp add: mode_resolved_def)
  show ?thesis
  proof (cases "mode_missing c (NetworkMode service)")
    case True
    with m1 r1 so1 show ?thesis
      by (auto simp: namespaces_resolved_def resolveSharedNamespaces_def mode_resolved_def
          mode_missing_def)
  next
    case n1: False
    with m1 have v1: "e1 = None" "nm = resolved_mode k c (NetworkMode service)"
      by (auto simp: mode_resolved_def mode_missing_def split: if_splits)
    obtain c2 ipc e2 where r2:
      "resolveMode k IpcContainerMissing c1 (Ipc service) = (c2, ipc, e2)"
      by (cases "resolveMode k IpcContainerMissing c1 (Ipc service)") auto
    have m2: "mode_resolved k IpcContainerMissing c1 (Ipc service) (c2, ipc, e2)"
      using resolveMode_spec [OF st, of IpcContainerMissing c1 "Ipc service"] r2 by simp
    then have so2: "same_order k c c2"
      using so1 by (auto simp: mode_resolved_def intro: same_order_trans)
    show ?thesis
    proof (cases "mode_missing c (Ipc service)")
      case True
      then have "mode_missing c1 (Ipc service)"
        using so1 by (simp add: same_order_mode_missing)
      with m2 have "e2 = Some (IpcContainerMissing (getDependentServiceFromMode (Ipc service)))"
        by (auto simp: mode_resolved_def mode_missing_def split: if_splits)
      with True n1 r1 r2 v1 so2 show ?thesis
        by (simp add: namespaces_resolved_def resolveSharedNamespaces_def)
    next
      case n2: False
      then have "\<not> mode_missing c1 (Ipc service)"
        using so1 by (simp add: same_order_mode_missing)
      with m2 have v2: "e2 = None" "ipc = resolved_mode k c (Ipc service)"
        using so1 by (auto simp: mode_resolved_def mode_missing_def same_order_resolved_mode
            split: if_splits)
      obtain c3 pid e3 where r3:
        "resolveMode k PidContainerMissing c2 (Pid service) = (c3, pid, e3)"
        by (cases "resolveMode k PidContainerMissing c2 (Pid service)") auto
      have m3: "mode_resolved k PidContainerMissing c2 (Pid service) (c3, pid, e3)"
        using resolveMode_spec [OF st, of PidContainerMissing c2 "Pid service"] r3 by simp
      then have so3: "same_order k c c3"
        using so2 by (auto simp: mode_resolved_def intro: same_order_trans)
      show ?thesis
      proof (cases "mode_missing c (Pid service)")
        case True
        then have "mode_missing c2 (Pid service)"
          using so2 by (simp add: same_order_mode_missing)
        with m3 have "e3 = Some (PidContainerMissing (getDependentServiceFromMode (Pid service)))"
          by (auto simp: mode_resolved_def mode_missing_def split: if_splits)
        with True n1 n2 r1 r2 r3 v1 v2 so3 show ?thesis
          by (simp add: namespaces_resolved_def resolveSharedNamespaces_def)
      next
        case n3: False
        then have "\<not> mode_missing c2 (Pid service)"
          using so2 by (simp add: same_order_mode_missing)
        with m3 have v3: "e3 = None" "pid = resolved_mode k c (Pid service)"
          using so2 by (auto simp: mode_resolved_def mode_missing_def same_order_resolved_mode
              split: if_splits)
        with n1 n2 n3 r1 r2 r3 v1 v2 so3 show ?thesis
          by (simp add: namespaces_resolved_def resolveSharedNamespaces_def)
      qed
    qed
  qed
qed

lemma getDependentServiceFromMode_form:
  "getDependentServiceFromMode str \<noteq> [] \<Longrightarrow> str = ''service:'' @ getDependentServiceFromMode str"
proof -
  assume "getDependentServiceFromMode str \<noteq> []"
  then have t: "take (length ServicePrefix) str = ServicePrefix"
    by (simp add: getDependentServiceFromMode_def split: if_splits)
  then have g: "getDependentServiceFromMode str = drop (length ServicePrefix) str"
    by (simp add: getDependentServiceFromMode_def)
  have "str = ServicePrefix @ getDependentServiceFromMode str"
    by (metis t g append_take_drop_id)
  then show ?thesis by (simp only: ServicePrefix_def)
qed

lemma referenced_services_present:
  "(\<forall>n \<in> set (referenced_services service). getObservedState c n \<noteq> []) =
     ((\<forall>v \<in> set (VolumesFrom service). hd (Split v CHR '':'') \<noteq> ''container''
          \<longrightarrow> getObservedState c (hd (Split v CHR '':'')) \<noteq> [])
      \<and> \<not> mode_missing c (NetworkMode service)
      \<and> \<not> mode_missing c (Ipc service)
      \<and> \<not> mode_missing c (Pid service))"
  by (auto simp: referenced_services_def mode_missing_def)

lemma resolved_volume_container:
  "CHR '':'' \<notin> set ident \<Longrightarrow> resolved_volume k c (''container:'' @ ident) = ident"
  using Split_container_ref [of ident] by (simp add: resolved_volume_def)

lemma resolved_volume_service:
  "hd (Split vol CHR '':'') \<noteq> ''container'' \<Longrightarrow>
     resolved_volume k c vol = first_container_id k c (hd (Split vol CHR '':''))"
  by (simp add: resolved_volume_def)

lemma resolved_mode_service:
  "svc \<noteq> [] \<Longrightarrow> resolved_mode k c (''service:'' @ svc) = ''container:'' @ first_container_id k c svc"
  using getDependentServiceFromMode_service [of svc]
  by (simp add: resolved_mode_def ContainerPrefix_def del: append.simps)

lemma resolveServiceReferences_cases:
  assumes st: "stable_order k" and nb: "''container'' \<notin> set (VolumesFrom service)"
    and r: "resolveServiceReferences k c service = (c', service', e)"
  shows "(\<exists>c1 vols err. volumes_resolved k c (VolumesFrom service) (c1, vols, Some err)
            \<and> c' = c1 \<and> service' = service\<lparr>VolumesFrom := vols\<rparr> \<and> e = Some err)
       \<or> (\<exists>c1. volumes_resolved k c (VolumesFrom service)
                  (c1, map (resolved_volume k c) (VolumesFrom service), None)
            \<and> namespaces_resolved k c1
                  (service\<lparr>VolumesFrom := map (resolved_volume k c) (VolumesFrom service)\<rparr>)
                  (c', service', e))"
proof -
  obtain c1 vols e1 where l: "resolveVolumeFrom_loop k c (VolumesFrom service) = (c1, vols, e1)"
    by (cases "resolveVolumeFrom_loop k c (VolumesFrom service)") auto
  have vr: "volumes_resolved k c (VolumesFrom service) (c1, vols, e1)"
    using resolveVolumeFrom_loop_spec [OF st nb, of c] l by simp
  show ?thesis
  proof (cases e1)
    case (Some err)
    with l r vr show ?thesis
      by (auto simp: resolveServiceReferences_def resolveVolumeFrom_def)
  next
    case None
    with vr have vols: "vols = map (resolved_volume k c) (VolumesFrom service)"
      by (simp add: volumes_resolved_def)
    from None l r have "resolveSharedNamespaces k c1 (service\<lparr>VolumesFrom := vols\<rparr>) = (c', service', e)"
      by (simp add: resolveServiceReferences_def resolveVolumeFrom_def)
    then have "namespaces_resolved k c1 (service\<lparr>VolumesFrom := vols\<rparr>) (c', service', e)"
      using resolveSharedNamespaces_spec [OF st, of c1 "service\<lparr>VolumesFrom := vols\<rparr>"] by simp
    with vr None vols show ?thesis by auto
  qed
qed

lemma volumes_resolved_error:
  assumes "volumes_resolved k c vols (c1, vols', Some err)"
  shows "\<exists>i < length vols. hd (Split (vols ! i) CHR '':'') \<noteq> ''container''
           \<and> getObservedState c (hd (Split (vols ! i) CHR '':'')) = []
           \<and> err = VolumeContainerMissing (hd (Split (vols ! i) CHR '':''))
           \<and> vols' ! i = vols ! i"
  using assms by (simp add: volumes_resolved_def)

lemma volumes_resolved_ok:
  assumes "volumes_resolved k c vols (c1, vols', None)"
  shows "same_order k c c1"
    and "\<forall>v \<in> set vols. hd (Split v CHR '':'') \<noteq> ''container''
           \<longrightarrow> getObservedState c (hd (Split v CHR '':'')) \<noteq> []"
  using assms by (simp_all add: volumes_resolved_def)

lemma namespaces_resolved_transfer:
  assumes so: "same_order k c c1"
    and n: "namespaces_resolved k c1 (service\<lparr>VolumesFrom := vols\<rparr>) (c', service', e)"
  shows "VolumesFrom service' = vols"
    and "if mode_missing c (NetworkMode service) then
           e = Some (NetworkContainerMissing (getDependentServiceFromMode (NetworkMode service)))
           \<and> NetworkMode service' = NetworkMode service
         else NetworkMode service' = resolved_mode k c (NetworkMode service) \<and>
           (if mode_missing c (Ipc service) then
              e = Some (IpcContainerMissing (getDependentServiceFromMode (Ipc service)))
              \<and> Ipc service' = Ipc service
            else Ipc service' = resolved_mode k c (Ipc service) \<and>
              (if mode_missing c (Pid service) then
                 e = Some (PidContainerMissing (getDependentServiceFromMode (Pid service)))
                 \<and> Pid service' = Pid service
               else e = None \<and> Pid service' = resolved_mode k c (Pid service)))"
  using n so
  by (simp_all add: namespaces_resolved_def same_order_mode_missing same_order_resolved_mode)

text \<open>
  What \<open>resolveServiceReferences\<close> does away from the bare entry. As long
  as no entry of \<^verbatim>\<open>volumesFrom\<close> is the bare word \<^verbatim>\<open>container\<close> and the
  ordering of containers is stable, it fails exactly when a referenced service
  has no observed container, and then with a missing-dependency error that
  names the service and with that reference left as it was; when it succeeds,
  every entry \<^verbatim>\<open>container:ID\<close> has become \<^verbatim>\<open>ID\<close>, every entry naming a
  service has become the id of the first container of that service in the
  ordering, and a network, ipc or pid mode \<^verbatim>\<open>service:<svc>\<close> has become
  \<^verbatim>\<open>container:\<close> followed by that id.
\<close>

lemma resolveServiceReferences_resolves:
  assumes st: "stable_order k" and nb: "''container'' \<notin> set (VolumesFrom service)"
    and r: "resolveServiceReferences k c service = (c', service', e)"
  shows "((e = None) = (\<forall>n \<in> set (referenced_services service). getObservedState c n \<noteq> []))
    \<and> (\<forall>err. e = Some err \<longrightarrow> missing_dependency err)
    \<and> (e = None \<longrightarrow>
         length (VolumesFrom service') = length (VolumesFrom service)
         \<and> (\<forall>i < length (VolumesFrom service).
               (\<forall>ident. VolumesFrom service ! i = ''container:'' @ ident \<and> CHR '':'' \<notin> set ident
                   \<longrightarrow> VolumesFrom service' ! i = ident)
               \<and> (hd (Split (VolumesFrom service ! i) CHR '':'') \<noteq> ''container''
                   \<longrightarrow> VolumesFrom service' ! i
                         = first_container_id k c (hd (Split (VolumesFrom service ! i) CHR '':''))))
         \<and> (\<forall>svc. svc \<noteq> [] \<longrightarrow>
               (NetworkMode service = ''service:'' @ svc
                  \<longrightarrow> NetworkMode service' = ''container:'' @ first_container_id k c svc)
               \<and> (Ipc service = ''service:'' @ svc
                  \<longrightarrow> Ipc service' = ''container:'' @ first_container_id k c svc)
               \<and> (Pid service = ''service:'' @ svc
                  \<longrightarrow> Pid service' = ''container:'' @ first_container_id k c svc)))
    \<and> (\<forall>n. e = Some (VolumeContainerMissing n) \<longrightarrow>
          getObservedState c n = []
          \<and> (\<exists>i < length (VolumesFrom service).
                hd (Split (VolumesFrom service ! i) CHR '':'') = n
                \<and> VolumesFrom service' ! i = VolumesFrom service ! i))
    \<and> (\<forall>n. e = Some (NetworkContainerMissing n) \<longrightarrow>
          getObservedState c n = [] \<and> NetworkMode service = ''service:'' @ n
          \<and> NetworkMode service' = NetworkMode service)
    \<and> (\<forall>n. e = Some (IpcContainerMissing n) \<longrightarrow>
          getObservedState c n = [] \<and> Ipc service = ''service:'' @ n
          \<and> Ipc service' = Ipc service)
    \<and> (\<forall>n. e = Some (PidContainerMissing n) \<longrightarrow>
          getObservedState c n = [] \<and> Pid service = ''service:'' @ n
          \<and> Pid service' = Pid service)"
proof -
  let ?vf = "VolumesFrom service"
  from resolveServiceReferences_cases [OF st nb r]
  consider (volume) c1 vols err where
      "volumes_resolved k c ?vf (c1, vols, Some err)"
      "service' = service\<lparr>VolumesFrom := vols\<rparr>" "e = Some err"
    | (modes) c1 where
      "volumes_resolved k c ?vf (c1, map (resolved_volume k c) ?vf, None)"
      "namespaces_resolved k c1 (service\<lparr>VolumesFrom := map (resolved_volume k c) ?vf\<rparr>)
         (c', service', e)"
    by blast
  then show ?thesis
  proof cases
    case volume
    from volumes_resolved_error [OF volume(1)] obtain i where i: "i < length ?vf"
      "hd (Split (?vf ! i) CHR '':'') \<noteq> ''container''"
      "getObservedState c (hd (Split (?vf ! i) CHR '':'')) = []"
      "err = VolumeContainerMissing (hd (Split (?vf ! i) CHR '':''))"
      "vols ! i = ?vf ! i"
      by blast
    from i(1) have "?vf ! i \<in> set ?vf" by simp
    with i(2,3) have absent:
      "\<not> (\<forall>n \<in> set (referenced_services service). getObservedState c n \<noteq> [])"
      unfolding referenced_services_present by blast
    from i volume(2,3) have unre: "\<forall>n. e = Some (VolumeContainerMissing n) \<longrightarrow>
          getObservedState c n = []
          \<and> (\<exists>i < length ?vf. hd (Split (?vf ! i) CHR '':'') = n
                \<and> VolumesFrom service' ! i = ?vf ! i)"
      by auto
    from absent unre volume(3) i(4) show ?thesis
      by (simp add: missing_dependency_def)
  next
    case modes
    note vo = volumes_resolved_ok [OF modes(1)]
    note ns = namespaces_resolved_transfer [OF vo(1) modes(2)]
    have present: "(\<forall>n \<in> set (referenced_services service). getObservedState c n \<noteq> []) =
        (\<not> mode_missing c (NetworkMode service) \<and> \<not> mode_missing c (Ipc service)
         \<and> \<not> mode_missing c (Pid service))"
      unfolding referenced_services_present using vo(2) by blast
    have vols: "e = None \<longrightarrow>
         length (VolumesFrom service') = length ?vf
         \<and> (\<forall>i < length ?vf.
               (\<forall>ident. ?vf ! i = ''container:'' @ ident \<and> CHR '':'' \<notin> set ident
                   \<longrightarrow> VolumesFrom service' ! i = ident)
               \<and> (hd (Split (?vf ! i) CHR '':'') \<noteq> ''container''
                   \<longrightarrow> VolumesFrom service' ! i
                         = first_container_id k c (hd (Split (?vf ! i) CHR '':''))))"
      using ns(1) by (auto simp: resolved_volume_container resolved_volume_service simp del: append.simps)
    have novol: "\<forall>n. e \<noteq> Some (VolumeContainerMissing n)"
      using ns(2) by (auto split: if_splits)
    have a: "(e = None) = (\<forall>n \<in> set (referenced_services service). getObservedState c n \<noteq> [])"
      unfolding present using ns(2) by (auto split: if_splits)
    have b: "\<forall>err. e = Some err \<longrightarrow> missing_dependency err"
      using ns(2) by (auto simp: missing_dependency_def split: if_splits)
    have m: "e = None \<longrightarrow> (\<forall>svc. svc \<noteq> [] \<longrightarrow>
               (NetworkMode service = ''service:'' @ svc
                  \<longrightarrow> NetworkMode service' = ''container:'' @ first_container_id k c svc)
               \<and> (Ipc service = ''service:'' @ svc
                  \<longrightarrow> Ipc service' = ''container:'' @ first_container_id k c svc)
               \<and> (Pid service = ''service:'' @ svc
                  \<longrightarrow> Pid service' = ''container:'' @ first_container_id k c svc))"
      using ns(2) by (auto simp: resolved_mode_service split: if_splits simp del: append.simps)
    have dn: "\<forall>n. e = Some (NetworkContainerMissing n) \<longrightarrow>
          getObservedState c n = [] \<and> NetworkMode service = ''service:'' @ n
          \<and> NetworkMode service' = NetworkMode service"
      using ns(2) getDependentServiceFromMode_form [of "NetworkMode service"]
      by (auto simp: mode_missing_def split: if_splits simp del: append.simps)
    have di: "\<forall>n. e = Some (IpcContainerMissing n) \<longrightarrow>
          getObservedState c n = [] \<and> Ipc service = ''service:'' @ n
          \<and> Ipc service' = Ipc service"
      using ns(2) getDependentServiceFromMode_form [of "Ipc service"]
      by (auto simp: mode_missing_def split: if_splits simp del: append.simps)
    have dp: "\<forall>n. e = Some (PidContainerMissing n) \<longrightarrow>
          getObservedState c n = [] \<and> Pid service = ''service:'' @ n
          \<and> Pid service' = Pid service"
      using ns(2) getDependentServiceFromMode_form [of "Pid service"]
      by (auto simp: mode_missing_def split: if_splits simp del: append.simps)
    from a b vols novol m dn di dp show ?thesis by blast
  qed
qed

text \<open>
  The lemma above at a service that shares the volumes of a container and of
  the service db, and the network of db.
\<close>

lemma resolveServiceReferences_resolves_example:
  "stable_order example_collaborators
   \<and> ''container'' \<notin> set (VolumesFrom example_service)
   \<and> snd (snd (resolveServiceReferences example_collaborators example_store example_service)) = None
   \<and> VolumesFrom (fst (snd (resolveServiceReferences example_collaborators example_store
         example_service))) ! 0 = ''x1''
   \<and> VolumesFrom (fst (snd (resolveServiceReferences example_collaborators example_store
         example_service))) ! 1 = ''0123456789abcdef''
   \<and> NetworkMode (fst (snd (resolveServiceReferences example_collaborators example_store
         example_service))) = ''container:0123456789abcdef''"
proof -
  let ?r = "resolveServiceReferences example_collaborators example_store example_service"
  have st: "stable_order example_collaborators"
    by (simp add: stable_order_def example_collaborators_def)
  have nb: "''container'' \<notin> set (VolumesFrom example_service)"
    by (simp add: example_service_def)
  have r: "?r = (fst ?r, fst (snd ?r), snd (snd ?r))" by simp
  note spec = resolveServiceReferences_resolves [OF st nb r]
  have refs: "referenced_services example_service = [''db'', ''db'']"
    by (simp add: referenced_services_def example_service_def getDependentServiceFromMode_def
        ServicePrefix_def)
  have obs: "getObservedState example_store ''db'' \<noteq> []"
    by (simp add: getObservedState_def example_store_def)
  have first: "first_container_id example_collaborators example_store ''db'' = ''0123456789abcdef''"
    by (simp add: first_container_id_def getObservedState_def example_store_def
        example_collaborators_def example_container_def)
  from spec refs obs have ok: "snd (snd ?r) = None" by simp
  have vf: "VolumesFrom example_service = [''container:x1'', ''db:ro'']"
    and nm: "NetworkMode example_service = ''service:'' @ ''db''"
    by (simp_all add: example_service_def)
  from spec ok have vols: "\<forall>i < length (VolumesFrom example_service).
               (\<forall>ident. VolumesFrom example_service ! i = ''container:'' @ ident \<and> CHR '':'' \<notin> set ident
                   \<longrightarrow> VolumesFrom (fst (snd ?r)) ! i = ident)
               \<and> (hd (Split (VolumesFrom example_service ! i) CHR '':'') \<noteq> ''container''
                   \<longrightarrow> VolumesFrom (fst (snd ?r)) ! i
                         = first_container_id example_collaborators example_store
                             (hd (Split (VolumesFrom example_service ! i) CHR '':'')))"
    by blast
  from vols [rule_format, of 0] vf have v0: "VolumesFrom (fst (snd ?r)) ! 0 = ''x1''"
    by simp
  from vols [rule_format, of 1] vf first have v1: "VolumesFrom (fst (snd ?r)) ! 1 = ''0123456789abcdef''"
    by simp
  from spec ok have "\<forall>svc. svc \<noteq> [] \<longrightarrow>
               (NetworkMode example_service = ''service:'' @ svc
                  \<longrightarrow> NetworkMode (fst (snd ?r))
                        = ''container:'' @ first_container_id example_collaborators example_store svc)"
    by blast
  from this [rule_format, of "''db''"] nm first
  have n: "NetworkMode (fst (snd ?r)) = ''container:0123456789abcdef''"
    by simp
  from st nb ok v0 v1 n show ?thesis by blast
qed


text \<open>
  C5: a service whose \<^verbatim>\<open>volumesFrom\<close> starts with the entry \<^verbatim>\<open>container\<close>,
  which has no colon, is not resolved: \<open>resolveServiceReferences\<close> panics on
  the second segment of the entry, whatever the store holds and whatever the
  other references of the service are. No reference is rewritten, and what
  comes back is not a missing-dependency error.
\<close>

theorem resolveServiceReferences_bare_container:
  "resolveServiceReferences k c (service\<lparr>VolumesFrom := ''container'' # rest\<rparr>)
     = (c, service\<lparr>VolumesFrom := ''container'' # rest\<rparr>, Some (Panic IndexOutOfRange))
   \<and> \<not> missing_dependency (Panic IndexOutOfRange)"
  by (simp add: resolveServiceReferences_def resolveVolumeFrom_def missing_dependency_def)

text \<open>
  C10: on the entry \<^verbatim>\<open>container\<close>, which has no colon, the split has one
  segment and \<open>resolveVolumeFrom\<close> reads the second one: the access is out of
  bounds and the function panics, whatever the store and the rest of the
  service are.
\<close>

theorem resolveVolumeFrom_bare_container:
  "resolveVolumeFrom k c (service\<lparr>VolumesFrom := [''container'']\<rparr>)
     = (c, service\<lparr>VolumesFrom := [''container'']\<rparr>, Some (Panic IndexOutOfRange))"
  by (simp add: resolveVolumeFrom_def)

text \<open>
  C3: whatever the desired service, the observed container and the current
  network and volume maps are, \<open>mustRecreate\<close> answers false without error under
  the policy never and true without error under the policy force.
\<close>

theorem mustRecreate_never_force:
  "mustRecreate k c expected actual RecreateNever = (False, None)
   \<and> mustRecreate k c expected actual RecreateForce = (True, None)"
  by (simp add: mustRecreate_def RecreateNever_def RecreateForce_def)

text \<open>
  C4: when \<open>recreateContainer\<close> returns no error, the number of the victim's
  container-number label was parsed, and the calls it made are, in this order:
  the creation of the replacement with that number under the transient name
  (the first twelve characters of the victim's id, an underscore, the canonical
  name), the stop of the victim, the removal of the victim, and the rename of
  the replacement from the transient to the canonical name. Whenever a call was
  made at all, also on failure, the calls are an initial part of that sequence
  and the container returned is the one the creation gave: nothing is undone.
\<close>

theorem recreateContainer_protocol:
  assumes r: "recreateContainer k eng project service victim inherit timeout = (calls, created, err)"
  shows "(err = None \<longrightarrow>
           (\<exists>number opts.
              Atoi (lookup (Labels victim) ContainerNumberLabel) = Some number
              \<and> 12 \<le> length (ID victim)
              \<and> calls =
                  [Create (take 12 (ID victim) @ ''_''
                             @ getContainerName k (ProjectName project) service number)
                     number (if inherit then Some victim else None) opts,
                   Stop (ID victim) (DurationSecondToInt k timeout),
                   Remove (ID victim),
                   Rename (take 12 (ID victim) @ ''_''
                             @ getContainerName k (ProjectName project) service number)
                     (getContainerName k (ProjectName project) service number)]))
       \<and> (calls \<noteq> [] \<longrightarrow>
           (\<exists>number opts n.
              Atoi (lookup (Labels victim) ContainerNumberLabel) = Some number
              \<and> 0 < n
              \<and> calls = take n (recreate_calls k project service victim inherit timeout number opts)
              \<and> created = fst (createMobyContainer eng service
                    (take 12 (ID victim) @ ''_''
                       @ getContainerName k (ProjectName project) service number)
                    number (if inherit then Some victim else None) opts)))"
proof (cases "Atoi (lookup (Labels victim) ContainerNumberLabel)")
  case None
  with r have "calls = []" "err \<noteq> None" by (auto simp: recreateContainer_def)
  then show ?thesis by simp
next
  case (Some number)
  show ?thesis
  proof (cases "length (ID victim) < 12")
    case True
    with Some r have "calls = []" "err \<noteq> None" by (auto simp: recreateContainer_def Let_def)
    then show ?thesis by simp
  next
    case False
    define name where "name = getContainerName k (ProjectName project) service number"
    define tmp where "tmp = take 12 (ID victim) @ ''_'' @ name"
    define inh where "inh = (if inherit then Some victim else None)"
    define opts where "opts = \<lparr>AutoRemove = False, AttachStdin = False, UseNetworkAliases = True,
        OptLabels = (mergeLabels [ServiceLabels service, CustomLabels service])
          (ContainerReplaceLabel \<mapsto>
             (if ContainerName service = [] then Name service @ Separator k @ Itoa number
              else ContainerName service))\<rparr>"
    define to where "to = DurationSecondToInt k timeout"
    define seq where "seq = [Create tmp number inh opts, Stop (ID victim) to, Remove (ID victim),
                             Rename tmp name]"
    have unfold: "recreateContainer k eng project service victim inherit timeout =
        (case createMobyContainer eng service tmp number inh opts of
           (created, Some err) \<Rightarrow> ([Create tmp number inh opts], created, Some err)
         | (created, None) \<Rightarrow>
             (case ContainerStop eng (ID victim) to of
                Some err \<Rightarrow> ([Create tmp number inh opts, Stop (ID victim) to], created, Some err)
              | None \<Rightarrow>
                  (case ContainerRemove eng (ID victim) of
                     Some err \<Rightarrow> ([Create tmp number inh opts, Stop (ID victim) to,
                                   Remove (ID victim)], created, Some err)
                   | None \<Rightarrow> (seq, created, ContainerRename eng tmp name))))"
      unfolding recreateContainer_def Let_def name_def tmp_def inh_def opts_def to_def seq_def
      using Some False by (simp only: option.case if_False)
    obtain created0 e0 where c0: "createMobyContainer eng service tmp number inh opts = (created0, e0)"
      by (cases "createMobyContainer eng service tmp number inh opts") auto
    have cr: "created = created0"
      using r c0 unfolding unfold by (auto split: option.splits)
    have ok: "err = None \<longrightarrow> calls = seq"
      using r c0 unfolding unfold by (auto split: option.splits)
    have "calls = take 1 seq \<or> calls = take 2 seq \<or> calls = take 3 seq \<or> calls = take 4 seq"
      using r c0 unfolding unfold by (auto simp: seq_def split: option.splits)
    then have pre: "\<exists>n. 0 < n \<and> calls = take n seq"
      by (metis zero_less_numeral zero_less_one)
    have rc: "recreate_calls k project service victim inherit timeout number opts = seq"
      by (simp add: recreate_calls_def Let_def seq_def name_def tmp_def inh_def to_def)
    have first: "err = None \<longrightarrow>
           (\<exists>number opts.
              Atoi (lookup (Labels victim) ContainerNumberLabel) = Some number
              \<and> 12 \<le> length (ID victim)
              \<and> calls =
                  [Create (take 12 (ID victim) @ ''_''
                             @ getContainerName k (ProjectName project) service number)
                     number (if inherit then Some victim else None) opts,
                   Stop (ID victim) (DurationSecondToInt k timeout),
                   Remove (ID victim),
                   Rename (take 12 (ID victim) @ ''_''
                             @ getContainerName k (ProjectName project) service number)
                     (getContainerName k (ProjectName project) service number)])"
    proof
      assume "err = None"
      with ok have "calls = seq" by simp
      then have "Atoi (lookup (Labels victim) ContainerNumberLabel) = Some number
              \<and> 12 \<le> length (ID victim)
              \<and> calls =
                  [Create (take 12 (ID victim) @ ''_''
                             @ getContainerName k (ProjectName project) service number)
                     number (if inherit then Some victim else None) opts,
                   Stop (ID victim) (DurationSecondToInt k timeout),
                   Remove (ID victim),
                   Rename (take 12 (ID victim) @ ''_''
                             @ getContainerName k (ProjectName project) service number)
                     (getContainerName k (ProjectName project) service number)]"
        using Some False unfolding seq_def tmp_def name_def inh_def to_def by simp
      then show "\<exists>number opts.
              Atoi (lookup (Labels victim) ContainerNumberLabel) = Some number
              \<and> 12 \<le> length (ID victim)
              \<and> calls =
                  [Create (take 12 (ID victim) @ ''_''
                             @ getContainerName k (ProjectName project) service number)
                     number (if inherit then Some victim else None) opts,
                   Stop (ID victim) (DurationSecondToInt k timeout),
                   Remove (ID victim),
                   Rename (take 12 (ID victim) @ ''_''
                             @ getContainerName k (ProjectName project) service number)
                     (getContainerName k (ProjectName project) service number)]"
        by blast
    qed
    have second: "calls \<noteq> [] \<longrightarrow>
           (\<exists>number opts n.
              Atoi (lookup (Labels victim) ContainerNumberLabel) = Some number
              \<and> 0 < n
              \<and> calls = take n (recreate_calls k project service victim inherit timeout number opts)
              \<and> created = fst (createMobyContainer eng service
                    (take 12 (ID victim) @ ''_''
                       @ getContainerName k (ProjectName project) service number)
                    number (if inherit then Some victim else None) opts))"
    proof
      assume "calls \<noteq> []"
      from pre obtain n where n: "0 < n" "calls = take n seq" by blast
      have "created = fst (createMobyContainer eng service
                    (take 12 (ID victim) @ ''_''
                       @ getContainerName k (ProjectName project) service number)
                    number (if inherit then Some victim else None) opts)"
        using cr c0 unfolding tmp_def name_def inh_def by simp
      with n Some rc show "\<exists>number opts n.
              Atoi (lookup (Labels victim) ContainerNumberLabel) = Some number
              \<and> 0 < n
              \<and> calls = take n (recreate_calls k project service victim inherit timeout number opts)
              \<and> created = fst (createMobyContainer eng service
                    (take 12 (ID victim) @ ''_''
                       @ getContainerName k (ProjectName project) service number)
                    number (if inherit then Some victim else None) opts)"
        by blast
    qed
    from first second show ?thesis by (rule conjI)
  qed
qed

lemma Atoi_one: "Atoi ''1'' = Some 1"
  by (simp add: Atoi_def digit_of_def)

lemma example_name: "getContainerName example_collaborators ''shop'' example_service 1 = ''shop-web-1''"
  by (simp add: getContainerName_def getDefaultContainerName_def example_collaborators_def
      example_service_def Itoa_def)

lemma example_project_name: "ProjectName example_project = ''shop''"
  by (simp add: example_project_def)

lemma example_duration: "DurationSecondToInt example_collaborators timeout = timeout"
  by (simp add: example_collaborators_def)

text \<open>
  The theorem of C4 at the recreate of container 1 of the service web in the
  project shop, on an engine where every call succeeds.
\<close>

theorem recreateContainer_protocol_witness:
  "snd (snd (recreateContainer example_collaborators example_engine example_project example_service
       (example_container ''0123456789abcdef'' ''1'') False None)) = None
   \<and> (\<exists>opts. fst (recreateContainer example_collaborators example_engine example_project
         example_service (example_container ''0123456789abcdef'' ''1'') False None)
       = [Create ''0123456789ab_shop-web-1'' 1 None opts,
          Stop ''0123456789abcdef'' None,
          Remove ''0123456789abcdef'',
          Rename ''0123456789ab_shop-web-1'' ''shop-web-1''])"
proof -
  let ?v = "example_container ''0123456789abcdef'' ''1''"
  let ?r = "recreateContainer example_collaborators example_engine example_project example_service
       ?v False None"
  have lab: "lookup (Labels ?v) ContainerNumberLabel = ''1''"
    by (simp add: example_container_def lookup_def ContainerNumberLabel_def ConfigHashLabel_def)
  have ident: "ID ?v = ''0123456789abcdef''"
    by (simp add: example_container_def)
  have ok: "snd (snd ?r) = None"
    by (simp add: recreateContainer_def lab Atoi_one ident Let_def example_engine_def)
  have r: "?r = (fst ?r, fst (snd ?r), snd (snd ?r))" by simp
  from recreateContainer_protocol [OF r] ok obtain number opts where
    n: "Atoi (lookup (Labels ?v) ContainerNumberLabel) = Some number"
    and c: "fst ?r =
        [Create (take 12 (ID ?v) @ ''_''
                   @ getContainerName example_collaborators (ProjectName example_project)
                       example_service number)
           number (if False then Some ?v else None) opts,
         Stop (ID ?v) (DurationSecondToInt example_collaborators None),
         Remove (ID ?v),
         Rename (take 12 (ID ?v) @ ''_''
                   @ getContainerName example_collaborators (ProjectName example_project)
                       example_service number)
           (getContainerName example_collaborators (ProjectName example_project)
              example_service number)]"
    by blast
  from n have "number = 1" by (simp add: lab Atoi_one)
  with c have "fst ?r = [Create ''0123456789ab_shop-web-1'' 1 None opts,
          Stop ''0123456789abcdef'' None,
          Remove ''0123456789abcdef'',
          Rename ''0123456789ab_shop-web-1'' ''shop-web-1'']"
    using example_name
    by (simp add: ident example_project_name example_duration)
  with ok show ?thesis by blast
qed

lemma resolveVolumeFrom_Name: "Name (fst (snd (resolveVolumeFrom k c service))) = Name service"
  by (simp add: resolveVolumeFrom_def split: prod.splits)

lemma resolveSharedNamespaces_Name:
  "Name (fst (snd (resolveSharedNamespaces k c service))) = Name service"
  by (simp add: resolveSharedNamespaces_def Let_def split: prod.splits option.splits)

lemma resolveServiceReferences_Name:
  "resolveServiceReferences k c service = (c', service', e) \<Longrightarrow> Name service' = Name service"
proof -
  assume r: "resolveServiceReferences k c service = (c', service', e)"
  obtain c1 s1 e1 where v: "resolveVolumeFrom k c service = (c1, s1, e1)"
    by (cases "resolveVolumeFrom k c service") auto
  then have n1: "Name s1 = Name service"
    using resolveVolumeFrom_Name [of k c service] by simp
  show ?thesis
  proof (cases e1)
    case None
    with r v have "resolveSharedNamespaces k c1 s1 = (c', service', e)"
      by (simp add: resolveServiceReferences_def)
    then have "Name service' = Name s1"
      using resolveSharedNamespaces_Name [of k c1 s1] by simp
    with n1 show ?thesis by simp
  next
    case (Some err)
    with r v n1 show ?thesis by (simp add: resolveServiceReferences_def)
  qed
qed

lemma ensureService_loop_scale_down:
  "int i \<ge> expected \<Longrightarrow>
     ensureService_loop k eng project service recreate expected (i # rest) c updated acts =
       ensureService_loop k eng project service recreate expected rest c updated
         (acts @ [Go (ScaleDown (getObservedState c (Name service) ! i))])"
  by (simp add: Let_def)

lemma ensureService_loop_error:
  "\<not> int i \<ge> expected \<Longrightarrow>
   mustRecreate k c service (getObservedState c (Name service) ! i) recreate = (b, Some err) \<Longrightarrow>
     ensureService_loop k eng project service recreate expected (i # rest) c updated acts =
       Inl (c, acts, err)"
  by (cases b) (simp_all add: Let_def)

lemma ensureService_loop_recreate:
  "\<not> int i \<ge> expected \<Longrightarrow>
   mustRecreate k c service (getObservedState c (Name service) ! i) recreate = (True, None) \<Longrightarrow>
   stopDependentContainers eng project service c = (c1, stops, e) \<Longrightarrow>
     ensureService_loop k eng project service recreate expected (i # rest) c updated acts =
       (case e of
          Some err \<Rightarrow> Inl (c1, acts @ stops, err)
        | None \<Rightarrow>
            ensureService_loop k eng project service recreate expected rest c1 updated
              (acts @ stops @ [Go (Recreate i (getObservedState c (Name service) ! i))]))"
  by (cases e) (simp_all add: Let_def)

lemma ensureService_loop_keep:
  "\<not> int i \<ge> expected \<Longrightarrow>
   mustRecreate k c service (getObservedState c (Name service) ! i) recreate = (False, None) \<Longrightarrow>
     ensureService_loop k eng project service recreate expected (i # rest) c updated acts =
       ensureService_loop k eng project service recreate expected rest c
         (updated[i := getObservedState c (Name service) ! i])
         (acts @ (if State (getObservedState c (Name service) ! i) = ContainerRunning
                     \<or> State (getObservedState c (Name service) ! i) = ContainerCreated
                     \<or> State (getObservedState c (Name service) ! i) = ContainerRestarting
                     \<or> State (getObservedState c (Name service) ! i) = ContainerExited
                  then [] else [Go (StartContainer (getObservedState c (Name service) ! i))]))"
  by (simp add: Let_def)







lemma example_db_resolve:
  "resolveServiceReferences example_collaborators example_store example_db_service
     = (example_store, example_db_service, None)"
  by (simp add: resolveServiceReferences_def resolveVolumeFrom_def resolveSharedNamespaces_def
      resolveMode_def getDependentServiceFromMode_def ServicePrefix_def example_db_service_def)

lemma example_db_observed:
  "getObservedState example_store ''db'' = [example_container ''0123456789abcdef'' ''1'']"
  by (simp add: getObservedState_def example_store_def)

lemma example_db_traversal:
  "traversal example_collaborators example_store example_db_service ''diverged''
     [example_container ''0123456789abcdef'' ''1'']
   = [example_container ''0123456789abcdef'' ''1'']"
  by (simp add: traversal_def sort_Slice_def insertionSort_def)

lemma example_db_reorder:
  "reorderObservedState example_store ''db'' [example_container ''0123456789abcdef'' ''1'']
     = example_store"
  by (simp add: reorderObservedState_def setObservedState_def example_store_def)

lemma example_db_mustRecreate:
  "mustRecreate example_collaborators example_store example_db_service
     (example_container ''0123456789abcdef'' ''1'') ''diverged'' = (False, None)"
  by (simp add: mustRecreate_def RecreateNever_def RecreateForce_def example_collaborators_def
      example_container_def example_db_service_def example_store_def lookup_def
      ConfigHashLabel_def ImageDigestLabel_def ContainerNumberLabel_def)

lemma example_db_loop:
  "ensureService_loop example_collaborators eng example_project example_db_service ''diverged'' 2
     [0] example_store [zero_Summary, zero_Summary] []
   = Inr (example_store, [example_container ''0123456789abcdef'' ''1'', zero_Summary], [])"
proof -
  have "State (example_container ''0123456789abcdef'' ''1'') = ContainerRunning"
    by (simp add: example_container_def ContainerRunning_def)
  moreover have "Name example_db_service = ''db''" by (simp add: example_db_service_def)
  ultimately show ?thesis
    using example_db_mustRecreate by (simp add: example_db_observed)
qed

lemma example_db_next:
  "nextContainerNumber [example_container ''0123456789abcdef'' ''1''] = 2"
  by (simp add: nextContainerNumber_def example_container_def lookup_def Atoi_def digit_of_def
      ContainerNumberLabel_def ConfigHashLabel_def wrap64_def)

lemma example_db_schedule:
  "ensureService_schedule example_collaborators eng example_project example_store
     example_db_service ''diverged''
   = Inr (example_store, example_db_service,
          [example_container ''0123456789abcdef'' ''1'', zero_Summary],
          scaleUp_tasks example_collaborators example_project example_db_service 2 1 2)"
proof -
  have "Provider example_db_service = None" "getScale example_db_service = Inr 2"
    "Name example_db_service = ''db''"
    by (simp_all add: example_db_service_def getScale_def GetScale_def)
  moreover have "replicate (nat 2) zero_Summary = [zero_Summary, zero_Summary]"
    by (simp add: numeral_2_eq_2)
  moreover have "[0..<length [example_container ''0123456789abcdef'' ''1'']] = [0]" by simp
  ultimately show ?thesis
    unfolding ensureService_schedule_def
    by (simp add: example_db_resolve example_db_observed example_db_traversal
        example_db_reorder example_db_loop example_db_next Let_def
        del: ensureService_loop.simps)
qed

lemma example_db_scaleUp:
  "\<exists>opts. scaleUp_tasks example_collaborators example_project example_db_service 2 1 2
     = [Go (ScaleUp 1 ''shop-db-2'' 2 opts)]"
proof -
  have "[0..<nat (2 - int 1)] = [0]" by simp
  moreover have "getContainerName example_collaborators ''shop'' example_db_service 2 = ''shop-db-2''"
    by (simp add: getContainerName_def getDefaultContainerName_def example_collaborators_def
        example_db_service_def Itoa_def)
  moreover have "wrap64 (2 + int 0) = 2" by (simp add: wrap64_def)
  moreover have "ProjectName example_project = ''shop''" by (simp add: example_project_def)
  ultimately show ?thesis
    unfolding scaleUp_tasks_def by (simp add: Let_def)
qed











text \<open>
  C9, as stated, fails for a provider service: with a custom container name
  and scale 2, \<open>ensureService\<close> hands the service to the plugin and returns the
  plugin's result, here no error.
\<close>

theorem ensureService_provider_named_scale:
  "ContainerName example_provider_service \<noteq> []
   \<and> 1 < GetScale example_provider_service
   \<and> ensureService example_collaborators example_engine example_project example_store
         example_provider_service ''diverged'' False None
       = (example_store, [Plugin example_provider_service], None)"
  by (simp add: ensureService_def ensureService_schedule_def example_provider_service_def
      example_named_service_def example_db_service_def GetScale_def example_engine_def)

text \<open>
  C9, amended: for every service that is not a provider service and declares a
  custom container name with a scale above 1, \<open>ensureService\<close> returns the
  error of \<open>getScale\<close> with no action taken and the store as it was; with a
  scale of at most 1, \<open>getScale\<close> accepts the service whatever its name.
\<close>

theorem ensureService_rejects_named_scale:
  "(Provider service = None \<and> ContainerName service \<noteq> [] \<and> 1 < GetScale service \<longrightarrow>
      ensureService k eng project c service recreate inherit timeout
        = (c, [], Some (DoubledContainerName (Name service) (ContainerName service))))
   \<and> (GetScale service \<le> 1 \<longrightarrow> getScale service = Inr (GetScale service))"
  by (simp add: ensureService_def ensureService_schedule_def getScale_def Let_def)

text \<open>
  The amended C9 at the service db with the custom name database and scale 2,
  and at the service web with a custom name and the default scale.
\<close>

theorem ensureService_rejects_named_scale_witness:
  "ensureService example_collaborators example_engine example_project example_store
     example_named_service ''diverged'' False None
     = (example_store, [], Some (DoubledContainerName ''db'' ''database''))
   \<and> getScale (example_service\<lparr>ContainerName := ''web''\<rparr>) = Inr 1"
proof -
  have p: "Provider example_named_service = None"
    and n: "ContainerName example_named_service = ''database''"
    and m: "Name example_named_service = ''db''"
    and g: "GetScale example_named_service = 2"
    by (simp_all add: example_named_service_def example_db_service_def GetScale_def)
  have g1: "GetScale (example_service\<lparr>ContainerName := ''web''\<rparr>) = 1"
    by (simp add: example_service_def GetScale_def)
  from ensureService_rejects_named_scale [of example_named_service example_collaborators
      example_engine example_project example_store "''diverged''" False None] p n m g
  have a: "ensureService example_collaborators example_engine example_project example_store
     example_named_service ''diverged'' False None
     = (example_store, [], Some (DoubledContainerName ''db'' ''database''))"
    by simp
  from ensureService_rejects_named_scale [of "example_service\<lparr>ContainerName := ''web''\<rparr>"] g1
  have "getScale (example_service\<lparr>ContainerName := ''web''\<rparr>) = Inr 1"
    by simp
  with a show ?thesis by simp
qed

lemma parsed_numbers_Cons:
  "parsed_numbers (c # cs) =
     (case Atoi (lookup (Labels c) ContainerNumberLabel) of
        None \<Rightarrow> parsed_numbers cs | Some n \<Rightarrow> n # parsed_numbers cs)"
  by (simp add: parsed_numbers_def split: option.splits)

lemma nextContainerNumber_loop_fold:
  "nextContainerNumber_loop cs m = fold max (parsed_numbers cs) m"
proof (induction cs arbitrary: m)
  case Nil
  show ?case by (simp add: parsed_numbers_def)
next
  case (Cons c cs)
  show ?case
  proof (cases "Atoi (lookup (Labels c) ContainerNumberLabel)")
    case None
    then show ?thesis by (simp add: parsed_numbers_Cons Cons.IH)
  next
    case (Some n)
    then show ?thesis by (simp add: parsed_numbers_Cons Cons.IH max_def)
  qed
qed

lemma nextContainerNumber_loop_Max:
  "nextContainerNumber_loop cs 0 = Max (set (0 # parsed_numbers cs))"
  by (simp only: nextContainerNumber_loop_fold Max.set_eq_fold)

lemma wrap64_id: "- (2 ^ 63) \<le> x \<Longrightarrow> x < 2 ^ 63 \<Longrightarrow> wrap64 x = x"
  by (simp add: wrap64_def)

lemma Atoi_range: "Atoi s = Some n \<Longrightarrow> - (2 ^ 63) \<le> n \<and> n < 2 ^ 63"
  by (auto simp: Atoi_def Let_def split: if_splits option.splits)

lemma stopDependentContainers_no_scale_up:
  "stopDependentContainers eng project service c = (c1, stops, e) \<Longrightarrow> scale_up_actions stops = []"
  by (auto simp: stopDependentContainers_def Let_def scale_up_actions_def
      split: if_splits option.splits)

lemma ensureService_loop_no_scale_up:
  "ensureService_loop k eng project service recreate expected idxs c updated acts
     = Inr (c', updated', acts') \<Longrightarrow> scale_up_actions acts' = scale_up_actions acts"
proof (induction idxs arbitrary: c updated acts)
  case Nil
  then show ?case by simp
next
  case (Cons i rest)
  let ?ctr = "getObservedState c (Name service) ! i"
  show ?case
  proof (cases "int i \<ge> expected")
    case True
    from Cons.prems have "scale_up_actions acts' = scale_up_actions (acts @ [Go (ScaleDown ?ctr)])"
      unfolding ensureService_loop_scale_down [OF True] by (rule Cons.IH)
    then show ?thesis by (simp add: scale_up_actions_def)
  next
    case False
    obtain b e where m: "mustRecreate k c service ?ctr recreate = (b, e)"
      by (cases "mustRecreate k c service ?ctr recreate") auto
    show ?thesis
    proof (cases e)
      case (Some err)
      with Cons.prems m show ?thesis
        unfolding ensureService_loop_error [OF False m [unfolded Some]] by simp
    next
      case None
      show ?thesis
      proof (cases b)
        case True
        obtain c1 stops e1 where s: "stopDependentContainers eng project service c = (c1, stops, e1)"
          by (cases "stopDependentContainers eng project service c") auto
        from m None True
        have m': "mustRecreate k c service ?ctr recreate = (True, None)" by simp
        from Cons.prems have e1: "e1 = None"
          unfolding ensureService_loop_recreate [OF False m' s] by (cases e1) simp_all
        from Cons.prems
        have "scale_up_actions acts' = scale_up_actions (acts @ stops @ [Go (Recreate i ?ctr)])"
          unfolding ensureService_loop_recreate [OF False m' s] e1 option.case by (rule Cons.IH)
        with stopDependentContainers_no_scale_up [OF s] show ?thesis
          by (simp add: scale_up_actions_def)
      next
        case nb: False
        from m None nb
        have m': "mustRecreate k c service ?ctr recreate = (False, None)" by simp
        from Cons.prems have "scale_up_actions acts' = scale_up_actions
            (acts @ (if State ?ctr = ContainerRunning \<or> State ?ctr = ContainerCreated
                       \<or> State ?ctr = ContainerRestarting \<or> State ?ctr = ContainerExited
                     then [] else [Go (StartContainer ?ctr)]))"
          unfolding ensureService_loop_keep [OF False m'] by (rule Cons.IH)
        then show ?thesis by (simp add: scale_up_actions_def)
      qed
    qed
  qed
qed

lemma scale_up_actions_scaleUp_tasks:
  "scale_up_actions (scaleUp_tasks k project service next actual expected)
     = scaleUp_tasks k project service next actual expected"
  by (simp add: scale_up_actions_def scaleUp_tasks_def Let_def filter_map comp_def)

lemma ensureService_schedule_scale_up:
  assumes "ensureService_schedule k eng project c service recreate = Inr (c3, service1, updated, acts)"
  shows "scale_up_actions acts =
           scaleUp_tasks k project service1
             (nextContainerNumber (getObservedState c3 (Name service)))
             (length (getObservedState c (Name service))) (GetScale service)"
proof -
  from assms obtain expected where sc: "getScale service = Inr expected" and nn: "\<not> expected < 0"
    and pr: "Provider service = None"
    by (auto simp: ensureService_schedule_def split: option.splits sum.splits if_splits)
  from sc have ex: "expected = GetScale service"
    by (auto simp: getScale_def Let_def split: if_splits)
  obtain c1 s1 e1 where rs: "resolveServiceReferences k c service = (c1, s1, e1)"
    by (cases "resolveServiceReferences k c service") auto
  with assms sc nn pr have e1: "e1 = None"
    by (cases e1) (simp_all add: ensureService_schedule_def Let_def)
  let ?cs = "traversal k c1 s1 recreate (getObservedState c1 (Name s1))"
  let ?loop = "ensureService_loop k eng project s1 recreate expected [0..<length ?cs]
      (reorderObservedState c1 (Name s1) ?cs) (replicate (nat expected) zero_Summary) []"
  from assms sc nn pr rs e1 obtain acts0 where
    lp: "?loop = Inr (c3, updated, acts0)" and s1: "service1 = s1"
    and acts: "acts = acts0 @ scaleUp_tasks k project s1
                 (nextContainerNumber (getObservedState c3 (Name s1)))
                 (length (getObservedState c (Name service))) expected"
    by (auto simp: ensureService_schedule_def Let_def split: sum.splits)
  from ensureService_loop_no_scale_up [OF lp] have "scale_up_actions acts0 = []"
    by (simp add: scale_up_actions_def)
  moreover have "scale_up_actions (xs @ ys) = scale_up_actions xs @ scale_up_actions ys" for xs ys
    by (simp add: scale_up_actions_def)
  ultimately show ?thesis
    using acts s1 ex resolveServiceReferences_Name [OF rs]
    by (simp add: scale_up_actions_scaleUp_tasks)
qed

lemma nextContainerNumber_Max:
  "nextContainerNumber containers = wrap64 (Max (set (0 # parsed_numbers containers)) + 1)"
  by (simp only: nextContainerNumber_def nextContainerNumber_loop_Max)

lemma scaleUp_tasks_nth:
  assumes "i < nat (expected - int actual)"
  shows "\<exists>opts. scaleUp_tasks k project service next actual expected ! i =
           Go (ScaleUp (actual + i)
                 (getContainerName k (ProjectName project) service (wrap64 (next + int i)))
                 (wrap64 (next + int i)) opts)"
  using assms by (simp add: scaleUp_tasks_def Let_def)

lemma getContainerName_join:
  "getContainerName k projectName service number =
     (if ContainerName service \<noteq> [] then ContainerName service
      else projectName @ Separator k @ Name service @ Separator k @ Itoa number)"
  by (simp add: getContainerName_def getDefaultContainerName_def Let_def)

lemma fresh_numbers:
  assumes bound: "Max (set (0 # parsed_numbers containers)) + int extra < 2 ^ 63"
    and i: "i < extra"
  shows "wrap64 (nextContainerNumber containers + int i)
           = Max (set (0 # parsed_numbers containers)) + 1 + int i"
    and "0 < wrap64 (nextContainerNumber containers + int i)"
    and "\<forall>n \<in> set (parsed_numbers containers). n < wrap64 (nextContainerNumber containers + int i)"
proof -
  let ?M = "Max (set (0 # parsed_numbers containers))"
  have M0: "0 \<le> ?M" by (rule Max_ge) simp_all
  have Mn: "n \<le> ?M" if "n \<in> set (parsed_numbers containers)" for n
    using that by (intro Max_ge) simp_all
  from bound i have b1: "?M + 1 < 2 ^ 63" and b2: "?M + 1 + int i < 2 ^ 63" by linarith+
  from M0 b1 have nxt: "nextContainerNumber containers = ?M + 1"
    unfolding nextContainerNumber_Max by (intro wrap64_id) linarith+
  from M0 b2 show eq: "wrap64 (nextContainerNumber containers + int i) = ?M + 1 + int i"
    unfolding nxt by (intro wrap64_id) linarith+
  from M0 show "0 < wrap64 (nextContainerNumber containers + int i)"
    unfolding eq by linarith
  show "\<forall>n \<in> set (parsed_numbers containers). n < wrap64 (nextContainerNumber containers + int i)"
    unfolding eq
  proof
    fix n assume "n \<in> set (parsed_numbers containers)"
    from Mn [OF this] show "n < ?M + 1 + int i" by linarith
  qed
qed

text \<open>
  C8, as stated, fails on a parseable label that is negative: for one
  container numbered -5 the next number is 1, not one plus the maximum of the
  parsed numbers.
\<close>

theorem nextContainerNumber_negative_label:
  "parsed_numbers [example_container ''0123456789abcdef'' ''-5''] = [- 5]
   \<and> nextContainerNumber [example_container ''0123456789abcdef'' ''-5''] = 1
   \<and> nextContainerNumber [example_container ''0123456789abcdef'' ''-5'']
        \<noteq> 1 + Max (set (parsed_numbers [example_container ''0123456789abcdef'' ''-5'']))"
proof -
  have a: "Atoi (lookup (Labels (example_container ''0123456789abcdef'' ''-5'')) ContainerNumberLabel)
             = Some (- 5)"
    by (simp add: example_container_def lookup_def Atoi_def digit_of_def
        ContainerNumberLabel_def ConfigHashLabel_def)
  then have p: "parsed_numbers [example_container ''0123456789abcdef'' ''-5''] = [- 5]"
    by (simp add: parsed_numbers_def)
  from a have n: "nextContainerNumber [example_container ''0123456789abcdef'' ''-5''] = 1"
    by (simp add: nextContainerNumber_def wrap64_def)
  from p n show ?thesis by simp
qed

text \<open>
  C8, amended: \<open>nextContainerNumber\<close> returns one plus the largest of 0 and
  the numbers parsed from the container-number labels, as a 64-bit integer, so
  1 when no label parses. The scale-up tasks of \<open>ensureService\<close> are those of
  the scale-up loop with that number: one per missing replica, the one of index
  i creating a container with number next + i whose name joins project name,
  service name and number with the separator unless the service has a custom
  container name. As long as the largest number plus the count of new
  containers stays below 2 to the power 63, the new numbers do not wrap, are
  positive, exceed every number parsed from an observed container and differ
  from one another.
\<close>

theorem scale_up_numbering:
  "nextContainerNumber containers = wrap64 (Max (set (0 # parsed_numbers containers)) + 1)
   \<and> (parsed_numbers containers = [] \<longrightarrow> nextContainerNumber containers = 1)
   \<and> (ensureService_schedule k eng project c service recreate = Inr (c3, service1, updated, acts)
        \<longrightarrow> scale_up_actions acts =
              scaleUp_tasks k project service1
                (nextContainerNumber (getObservedState c3 (Name service)))
                (length (getObservedState c (Name service))) (GetScale service))
   \<and> length (scaleUp_tasks k project service next actual expected) = nat (expected - int actual)
   \<and> (\<forall>i < nat (expected - int actual).
         \<exists>opts. scaleUp_tasks k project service next actual expected ! i =
           Go (ScaleUp (actual + i)
                 (getContainerName k (ProjectName project) service (wrap64 (next + int i)))
                 (wrap64 (next + int i)) opts))
   \<and> getContainerName k projectName service number =
         (if ContainerName service \<noteq> [] then ContainerName service
          else projectName @ Separator k @ Name service @ Separator k @ Itoa number)
   \<and> (Max (set (0 # parsed_numbers containers)) + int extra < 2 ^ 63 \<longrightarrow>
         (\<forall>i < extra.
            wrap64 (nextContainerNumber containers + int i)
              = Max (set (0 # parsed_numbers containers)) + 1 + int i
            \<and> 0 < wrap64 (nextContainerNumber containers + int i)
            \<and> (\<forall>n \<in> set (parsed_numbers containers).
                  n < wrap64 (nextContainerNumber containers + int i))
            \<and> (\<forall>j < extra. i \<noteq> j \<longrightarrow>
                  wrap64 (nextContainerNumber containers + int i)
                    \<noteq> wrap64 (nextContainerNumber containers + int j))))"
proof -
  have one: "parsed_numbers containers = [] \<longrightarrow> nextContainerNumber containers = 1"
    by (simp add: nextContainerNumber_Max wrap64_def)
  have len: "length (scaleUp_tasks k project service next actual expected)
               = nat (expected - int actual)"
    by (simp add: scaleUp_tasks_def)
  have fresh: "Max (set (0 # parsed_numbers containers)) + int extra < 2 ^ 63 \<longrightarrow>
         (\<forall>i < extra.
            wrap64 (nextContainerNumber containers + int i)
              = Max (set (0 # parsed_numbers containers)) + 1 + int i
            \<and> 0 < wrap64 (nextContainerNumber containers + int i)
            \<and> (\<forall>n \<in> set (parsed_numbers containers).
                  n < wrap64 (nextContainerNumber containers + int i))
            \<and> (\<forall>j < extra. i \<noteq> j \<longrightarrow>
                  wrap64 (nextContainerNumber containers + int i)
                    \<noteq> wrap64 (nextContainerNumber containers + int j)))"
  proof (intro impI allI conjI)
    fix i assume b: "Max (set (0 # parsed_numbers containers)) + int extra < 2 ^ 63"
      and i: "i < extra"
    from fresh_numbers [OF b i]
    show "wrap64 (nextContainerNumber containers + int i)
              = Max (set (0 # parsed_numbers containers)) + 1 + int i"
      and "0 < wrap64 (nextContainerNumber containers + int i)"
      and "\<forall>n \<in> set (parsed_numbers containers).
                  n < wrap64 (nextContainerNumber containers + int i)"
      by blast+
    fix j assume j: "j < extra" and ij: "i \<noteq> j"
    from fresh_numbers(1) [OF b i] fresh_numbers(1) [OF b j] ij
    show "wrap64 (nextContainerNumber containers + int i)
            \<noteq> wrap64 (nextContainerNumber containers + int j)"
      by simp
  qed
  have sched: "ensureService_schedule k eng project c service recreate
                 = Inr (c3, service1, updated, acts)
        \<longrightarrow> scale_up_actions acts =
              scaleUp_tasks k project service1
                (nextContainerNumber (getObservedState c3 (Name service)))
                (length (getObservedState c (Name service))) (GetScale service)"
    using ensureService_schedule_scale_up by blast
  have nth: "\<forall>i < nat (expected - int actual).
         \<exists>opts. scaleUp_tasks k project service next actual expected ! i =
           Go (ScaleUp (actual + i)
                 (getContainerName k (ProjectName project) service (wrap64 (next + int i)))
                 (wrap64 (next + int i)) opts)"
    using scaleUp_tasks_nth by blast
  show ?thesis
    by (intro conjI)
      (rule nextContainerNumber_Max, rule one, rule sched, rule len, rule nth,
        rule getContainerName_join, rule fresh)
qed

text \<open>
  The amended C8 with no observed container, and where the service db goes
  from its container 1 to two replicas: the one new container gets number 2
  and the name shop-db-2.
\<close>

theorem scale_up_numbering_witness:
  "parsed_numbers [] = [] \<and> nextContainerNumber [] = 1
   \<and> (\<exists>c3 service1 updated acts.
         ensureService_schedule example_collaborators example_engine example_project
           example_store example_db_service ''diverged'' = Inr (c3, service1, updated, acts)
         \<and> (\<exists>opts. scale_up_actions acts = [Go (ScaleUp 1 ''shop-db-2'' 2 opts)]))
   \<and> Max (set (0 # parsed_numbers [example_container ''0123456789abcdef'' ''1''])) + int 1 < 2 ^ 63
   \<and> wrap64 (nextContainerNumber [example_container ''0123456789abcdef'' ''1''] + int 0) = 2"
proof -
  let ?c = "example_container ''0123456789abcdef'' ''1''"
  have p0: "parsed_numbers [] = []" by (simp add: parsed_numbers_def)
  with scale_up_numbering [where containers = "[]"] have n0: "nextContainerNumber [] = 1"
    by blast
  note sch = example_db_schedule [of example_engine]
  have nm: "Name example_db_service = ''db''" and sc: "GetScale example_db_service = 2"
    by (simp_all add: example_db_service_def GetScale_def)
  from scale_up_numbering [where k = example_collaborators and eng = example_engine
      and project = example_project and c = example_store and service = example_db_service
      and recreate = "''diverged''" and ?c3.0 = example_store and ?service1.0 = example_db_service
      and updated = "[?c, zero_Summary]"
      and acts = "scaleUp_tasks example_collaborators example_project example_db_service 2 1 2"]
    sch
  have "scale_up_actions
          (scaleUp_tasks example_collaborators example_project example_db_service 2 1 2)
        = scaleUp_tasks example_collaborators example_project example_db_service
            (nextContainerNumber (getObservedState example_store (Name example_db_service)))
            (length (getObservedState example_store (Name example_db_service)))
            (GetScale example_db_service)"
    by blast
  then have "scale_up_actions
          (scaleUp_tasks example_collaborators example_project example_db_service 2 1 2)
        = scaleUp_tasks example_collaborators example_project example_db_service 2 1 2"
    by (simp add: nm sc example_db_observed example_db_next)
  with example_db_scaleUp obtain opts where
    "scale_up_actions
          (scaleUp_tasks example_collaborators example_project example_db_service 2 1 2)
        = [Go (ScaleUp 1 ''shop-db-2'' 2 opts)]"
    by auto
  with sch have plan: "\<exists>c3 service1 updated acts.
         ensureService_schedule example_collaborators example_engine example_project
           example_store example_db_service ''diverged'' = Inr (c3, service1, updated, acts)
         \<and> (\<exists>opts. scale_up_actions acts = [Go (ScaleUp 1 ''shop-db-2'' 2 opts)])"
    by blast
  have "Atoi (lookup (Labels ?c) ContainerNumberLabel) = Some 1"
    by (simp add: example_container_def lookup_def Atoi_def digit_of_def
        ContainerNumberLabel_def ConfigHashLabel_def)
  then have p1: "parsed_numbers [?c] = [1]"
    by (simp add: parsed_numbers_def)
  then have b: "Max (set (0 # parsed_numbers [?c])) + int 1 < 2 ^ 63" by simp
  with scale_up_numbering [where containers = "[?c]" and extra = 1]
  have "\<forall>i < (1::nat). wrap64 (nextContainerNumber [?c] + int i)
          = Max (set (0 # parsed_numbers [?c])) + 1 + int i"
    by blast
  then have "wrap64 (nextContainerNumber [?c] + int 0) = Max (set (0 # parsed_numbers [?c])) + 1 + int 0"
    by blast
  then have w: "wrap64 (nextContainerNumber [?c] + int 0) = 2"
    by (simp add: p1)
  from p0 n0 plan b w show ?thesis by blast
qed

declare insert_last.simps [simp del]















































lemma isServiceCompleted_skip:
  "not_exited inspect x \<Longrightarrow> isServiceCompleted inspect (x # cs) = isServiceCompleted inspect cs"
  by (auto simp: not_exited_def split: sum.splits option.splits)

lemma isServiceCompleted_prefix:
  "\<forall>y \<in> set pre. not_exited inspect y \<Longrightarrow>
     isServiceCompleted inspect (pre @ rest) = isServiceCompleted inspect rest"
  by (induction pre) (simp_all add: isServiceCompleted_skip del: isServiceCompleted.simps)

lemma isServiceCompleted_exited:
  "exit_code_of inspect x = Some code \<Longrightarrow> isServiceCompleted inspect (x # cs) = (True, code, None)"
  by (auto simp: exit_code_of_def split: sum.splits option.splits if_splits)

lemma isServiceCompleted_first:
  assumes "\<forall>y \<in> set pre. not_exited inspect y" "exit_code_of inspect x = Some code"
  shows "isServiceCompleted inspect (pre @ x # post) = (True, code, None)"
  using assms
  by (simp add: isServiceCompleted_prefix isServiceCompleted_exited del: isServiceCompleted.simps)

lemma isServiceCompleted_none:
  "\<forall>y \<in> set cs. not_exited inspect y \<Longrightarrow> isServiceCompleted inspect cs = (False, 0, None)"
  using isServiceCompleted_prefix [of cs inspect "[]"] by simp

lemma isServiceCompleted_inspect_error:
  "inspect (ID x) = Inl err \<Longrightarrow> isServiceCompleted inspect (x # cs) = (False, 0, Some err)"
  by simp

lemma inspected_cases:
  "(\<exists>err. inspect (ID x) = Inl err) \<or> (\<exists>code. exit_code_of inspect x = Some code)
     \<or> not_exited inspect x"
  by (auto simp: exit_code_of_def not_exited_def split: sum.splits option.splits)

lemma isServiceCompleted_some:
  "isServiceCompleted inspect cs = (True, code, e) \<Longrightarrow>
     e = None \<and> (\<exists>x \<in> set cs. exit_code_of inspect x = Some code)"
proof (induction cs)
  case Nil
  then show ?case by simp
next
  case (Cons c cs)
  from inspected_cases [of inspect c] consider
    (err) err where "inspect (ID c) = Inl err"
    | (exited) code' where "exit_code_of inspect c = Some code'"
    | (running) "not_exited inspect c"
    by blast
  then show ?case
  proof cases
    case err
    with Cons.prems show ?thesis
      by (simp only: isServiceCompleted_inspect_error) simp
  next
    case exited
    with Cons.prems show ?thesis
      by (simp only: isServiceCompleted_exited) simp
  next
    case running
    with Cons.prems have "isServiceCompleted inspect cs = (True, code, e)"
      by (simp only: isServiceCompleted_skip)
    from Cons.IH [OF this] show ?thesis by simp
  qed
qed

lemma poll_completed:
  "poll_dependency inspect dep ServiceConditionCompletedSuccessfully required waitingFor =
     (case isServiceCompleted inspect waitingFor of
        (_, _, Some err) \<Rightarrow> Some (Failed err)
      | (exited, code, None) \<Rightarrow>
          if exited then
            (if code = 0 then Some Succeeded
             else if \<not> required then Some SkippedWithWarning
             else Some (Failed (DidNotCompleteSuccessfully dep code)))
          else None)"
  by (simp add: poll_dependency_def ServiceConditionCompletedSuccessfully_def
      ServiceConditionRunningOrHealthy_def ServiceConditionHealthy_def)

lemma example_seed_codes:
  "exit_code_of example_seed_inspector (example_container ''aaaaaaaaaaaaaaaa'' ''1'') = Some 1"
  "exit_code_of example_seed_inspector (example_container ''bbbbbbbbbbbbbbbb'' ''2'') = Some 0"
  by (simp_all add: exit_code_of_def example_seed_inspector_def example_inspector_def
      example_response_def example_container_def)

text \<open>
  C2, as stated, fails when a container that exited with a non-zero code comes
  before one that exited with code 0: the second container of the dependency
  has exited with code 0, and the required wait fails all the same.
\<close>

theorem completed_successfully_second_exit_ignored:
  "exit_code_of example_seed_inspector (example_container ''bbbbbbbbbbbbbbbb'' ''2'') = Some 0
   \<and> poll_dependency example_seed_inspector ''seed'' ServiceConditionCompletedSuccessfully True
        [example_container ''aaaaaaaaaaaaaaaa'' ''1'', example_container ''bbbbbbbbbbbbbbbb'' ''2'']
      = Some (Failed (DidNotCompleteSuccessfully ''seed'' 1))"
  using isServiceCompleted_exited [OF example_seed_codes(1),
      of "[example_container ''bbbbbbbbbbbbbbbb'' ''2'']"]
  by (simp add: poll_completed example_seed_codes del: isServiceCompleted.simps)

text \<open>
  C2, amended: in a round of the wait for the condition
  service_completed_successfully, the first observed container of the
  dependency, in the order of the list, that is found exited decides: the wait
  succeeds when its exit code is 0, and otherwise fails when required is true
  and is a skip with a warning when required is false. A success implies that
  some observed container has exited with code 0. As long as every container
  is inspected and none has exited, the round decides nothing and the wait goes
  on with the next tick; a round that decides ends the wait with its outcome.
\<close>

theorem completed_successfully_first_exit:
  "((\<forall>y \<in> set pre. not_exited inspect y) \<and> exit_code_of inspect x = Some code \<longrightarrow>
      poll_dependency inspect dep ServiceConditionCompletedSuccessfully required (pre @ x # post)
        = (if code = 0 then Some Succeeded
           else if required then Some (Failed (DidNotCompleteSuccessfully dep code))
           else Some SkippedWithWarning))
   \<and> (poll_dependency inspect dep ServiceConditionCompletedSuccessfully required waitingFor
         = Some Succeeded
       \<longrightarrow> (\<exists>x \<in> set waitingFor. exit_code_of inspect x = Some 0))
   \<and> ((\<forall>y \<in> set waitingFor. not_exited inspect y) \<longrightarrow>
         poll_dependency inspect dep ServiceConditionCompletedSuccessfully required waitingFor = None
         \<and> wait_loop dep ServiceConditionCompletedSuccessfully required waitingFor
              (Tick inspect # ticks)
            = wait_loop dep ServiceConditionCompletedSuccessfully required waitingFor ticks)
   \<and> (poll_dependency inspect dep ServiceConditionCompletedSuccessfully required waitingFor
         = Some outcome
       \<longrightarrow> wait_loop dep ServiceConditionCompletedSuccessfully required waitingFor
             (Tick inspect # ticks) = Some outcome)"
proof -
  have first: "(\<forall>y \<in> set pre. not_exited inspect y) \<and> exit_code_of inspect x = Some code \<longrightarrow>
      poll_dependency inspect dep ServiceConditionCompletedSuccessfully required (pre @ x # post)
        = (if code = 0 then Some Succeeded
           else if required then Some (Failed (DidNotCompleteSuccessfully dep code))
           else Some SkippedWithWarning)"
    by (auto simp: poll_completed isServiceCompleted_first simp del: isServiceCompleted.simps)
  have succ: "poll_dependency inspect dep ServiceConditionCompletedSuccessfully required waitingFor
         = Some Succeeded
       \<longrightarrow> (\<exists>x \<in> set waitingFor. exit_code_of inspect x = Some 0)"
  proof
    assume p: "poll_dependency inspect dep ServiceConditionCompletedSuccessfully required waitingFor
         = Some Succeeded"
    obtain exited code e where r: "isServiceCompleted inspect waitingFor = (exited, code, e)"
      by (cases "isServiceCompleted inspect waitingFor") auto
    from p r have "exited \<and> code = 0"
      by (cases e) (auto simp: poll_completed split: if_splits)
    with r isServiceCompleted_some [of inspect waitingFor 0 e]
    show "\<exists>x \<in> set waitingFor. exit_code_of inspect x = Some 0" by simp
  qed
  have none: "(\<forall>y \<in> set waitingFor. not_exited inspect y) \<longrightarrow>
         poll_dependency inspect dep ServiceConditionCompletedSuccessfully required waitingFor = None
         \<and> wait_loop dep ServiceConditionCompletedSuccessfully required waitingFor
              (Tick inspect # ticks)
            = wait_loop dep ServiceConditionCompletedSuccessfully required waitingFor ticks"
    by (simp add: poll_completed isServiceCompleted_none)
  have decide: "poll_dependency inspect dep ServiceConditionCompletedSuccessfully required waitingFor
         = Some outcome
       \<longrightarrow> wait_loop dep ServiceConditionCompletedSuccessfully required waitingFor
             (Tick inspect # ticks) = Some outcome"
    by simp
  show ?thesis by (intro conjI) (rule first, rule succ, rule none, rule decide)
qed

text \<open>
  The amended C2 at the two seed containers, the first exited with code 1 and
  the second with code 0: a required wait fails, an optional one is skipped,
  and the second container alone makes the wait succeed.
\<close>

theorem completed_successfully_first_exit_witness:
  "exit_code_of example_seed_inspector (example_container ''aaaaaaaaaaaaaaaa'' ''1'') = Some 1
   \<and> poll_dependency example_seed_inspector ''seed'' ServiceConditionCompletedSuccessfully True
        ([] @ example_container ''aaaaaaaaaaaaaaaa'' ''1''
            # [example_container ''bbbbbbbbbbbbbbbb'' ''2''])
      = Some (Failed (DidNotCompleteSuccessfully ''seed'' 1))
   \<and> poll_dependency example_seed_inspector ''seed'' ServiceConditionCompletedSuccessfully False
        ([] @ example_container ''aaaaaaaaaaaaaaaa'' ''1''
            # [example_container ''bbbbbbbbbbbbbbbb'' ''2''])
      = Some SkippedWithWarning
   \<and> poll_dependency example_seed_inspector ''seed'' ServiceConditionCompletedSuccessfully True
        ([] @ example_container ''bbbbbbbbbbbbbbbb'' ''2'' # [])
      = Some Succeeded
   \<and> wait_loop ''seed'' ServiceConditionCompletedSuccessfully True
        ([] @ example_container ''bbbbbbbbbbbbbbbb'' ''2'' # [])
        (Tick example_seed_inspector # []) = Some Succeeded"
proof -
  let ?a = "example_container ''aaaaaaaaaaaaaaaa'' ''1''"
  let ?b = "example_container ''bbbbbbbbbbbbbbbb'' ''2''"
  have pre: "\<forall>y \<in> set []. not_exited example_seed_inspector y" by simp
  from completed_successfully_first_exit [where pre = "[]" and inspect = example_seed_inspector
      and x = ?a and code = 1 and dep = "''seed''" and required = True and post = "[?b]"]
    pre example_seed_codes(1)
  have f: "poll_dependency example_seed_inspector ''seed'' ServiceConditionCompletedSuccessfully True
        ([] @ ?a # [?b]) = Some (Failed (DidNotCompleteSuccessfully ''seed'' 1))"
    by simp
  from completed_successfully_first_exit [where pre = "[]" and inspect = example_seed_inspector
      and x = ?a and code = 1 and dep = "''seed''" and required = False and post = "[?b]"]
    pre example_seed_codes(1)
  have s: "poll_dependency example_seed_inspector ''seed'' ServiceConditionCompletedSuccessfully False
        ([] @ ?a # [?b]) = Some SkippedWithWarning"
    by simp
  from completed_successfully_first_exit [where pre = "[]" and inspect = example_seed_inspector
      and x = ?b and code = 0 and dep = "''seed''" and required = True and post = "[]"]
    pre example_seed_codes(2)
  have ok: "poll_dependency example_seed_inspector ''seed'' ServiceConditionCompletedSuccessfully True
        ([] @ ?b # []) = Some Succeeded"
    by simp
  with completed_successfully_first_exit [where inspect = example_seed_inspector
      and dep = "''seed''" and required = True and waitingFor = "[] @ ?b # []"
      and outcome = Succeeded and ticks = "[]"]
  have w: "wait_loop ''seed'' ServiceConditionCompletedSuccessfully True ([] @ ?b # [])
        (Tick example_seed_inspector # []) = Some Succeeded"
    by blast
  from example_seed_codes(1) f s ok w show ?thesis by blast
qed

lemma health_distinct: "Healthy \<noteq> Unhealthy" "Healthy \<noteq> Starting" "Unhealthy \<noteq> Starting"
  by (simp_all add: Healthy_def Unhealthy_def Starting_def)

lemma isServiceHealthy_skip:
  "healthy_container inspect x \<Longrightarrow>
     isServiceHealthy inspect (x # cs) False = isServiceHealthy inspect cs False"
  by (auto simp: healthy_container_def split: sum.splits option.splits)

lemma isServiceHealthy_prefix:
  "\<forall>y \<in> set pre. healthy_container inspect y \<Longrightarrow>
     isServiceHealthy inspect (pre @ rest) False = isServiceHealthy inspect rest False"
  by (induction pre) (simp_all add: isServiceHealthy_skip del: isServiceHealthy.simps)

lemma isServiceHealthy_all:
  "\<forall>y \<in> set cs. healthy_container inspect y \<Longrightarrow> isServiceHealthy inspect cs False = (True, None)"
  using isServiceHealthy_prefix [of cs inspect "[]"] by simp

lemma isServiceHealthy_unhealthy_first:
  "\<not> healthy_container inspect x \<Longrightarrow> \<not> fst (isServiceHealthy inspect (x # cs) False)"
  by (auto simp: healthy_container_def health_distinct Let_def
      split: sum.splits option.splits if_splits)

lemma isServiceHealthy_true:
  "fst (isServiceHealthy inspect cs False) \<Longrightarrow> \<forall>y \<in> set cs. healthy_container inspect y"
proof (induction cs)
  case Nil
  show ?case by simp
next
  case (Cons c cs)
  from Cons.prems isServiceHealthy_unhealthy_first [of inspect c cs]
  have h: "healthy_container inspect c" by blast
  with Cons.prems have "fst (isServiceHealthy inspect cs False)"
    by (simp only: isServiceHealthy_skip)
  from Cons.IH [OF this] h show ?case by simp
qed

lemma isServiceHealthy_decider:
  assumes "inspect (ID x) = Inr r" "InspectName r \<noteq> []" "InspectState r = Some st"
  shows "isServiceHealthy inspect (x # cs) False =
     (if Status st = ''exited'' then
        (False, Some (ContainerExitedError (tl (InspectName r)) (ExitCode st)))
      else (case Health st of
              None \<Rightarrow> (False, Some (NoHealthcheck (tl (InspectName r))))
            | Some h \<Rightarrow>
                if h = Healthy then isServiceHealthy inspect cs False
                else if h = Unhealthy then (False, Some (ContainerUnhealthy (tl (InspectName r))))
                else if h = Starting then (False, None)
                else (False, Some (UnexpectedHealthStatus (tl (InspectName r)) h))))"
  using assms by (simp add: Let_def)

lemma poll_healthy:
  "poll_dependency inspect dep ServiceConditionHealthy required waitingFor =
     (case isServiceHealthy inspect waitingFor False of
        (_, Some (Panic p)) \<Rightarrow> Some (Panicked p)
      | (_, Some err) \<Rightarrow>
          if \<not> required then Some SkippedWithWarning
          else Some (Failed (DependencyFailedToStart err))
      | (healthy, None) \<Rightarrow> if healthy then Some Succeeded else None)"
  by (simp add: poll_dependency_def ServiceConditionRunningOrHealthy_def
      ServiceConditionHealthy_def)

lemma poll_healthy_succeeded:
  "(poll_dependency inspect dep ServiceConditionHealthy required waitingFor = Some Succeeded)
     = (\<forall>x \<in> set waitingFor. healthy_container inspect x)"
proof
  assume p: "poll_dependency inspect dep ServiceConditionHealthy required waitingFor = Some Succeeded"
  obtain b e where r: "isServiceHealthy inspect waitingFor False = (b, e)"
    by (cases "isServiceHealthy inspect waitingFor False") auto
  from p r have "b"
    by (cases e) (auto simp: poll_healthy split: if_splits error.splits)
  with r isServiceHealthy_true [of inspect waitingFor]
  show "\<forall>x \<in> set waitingFor. healthy_container inspect x" by simp
next
  assume "\<forall>x \<in> set waitingFor. healthy_container inspect x"
  then show "poll_dependency inspect dep ServiceConditionHealthy required waitingFor = Some Succeeded"
    by (simp add: poll_healthy isServiceHealthy_all)
qed

lemma example_db_inspected:
  "example_db_inspector (ID (example_container ''aaaaaaaaaaaaaaaa'' n))
     = Inr (example_response ''/shop-db-1'' ''running'' 0 (Some Starting))"
  "example_db_inspector (ID (example_container ''bbbbbbbbbbbbbbbb'' n))
     = Inr (example_response ''/shop-db-2'' ''running'' 0 (Some Unhealthy))"
  "example_db_inspector (ID (example_container ''cccccccccccccccc'' n))
     = Inr (example_response ''/shop-db-3'' ''running'' 0 (Some Healthy))"
  "example_db_inspector (ID (example_container ''dddddddddddddddd'' n))
     = Inr (example_response ''/shop-db-4'' ''exited'' 3 None)"
  "example_db_inspector (ID (example_container ''eeeeeeeeeeeeeeee'' n))
     = Inr (example_response ''/shop-db-5'' ''running'' 0 None)"
  by (simp_all add: example_db_inspector_def example_inspector_def example_container_def)

lemma example_response_fields:
  "InspectName (example_response name status code health) = name"
  "InspectState (example_response name status code health)
     = Some \<lparr>Status = status, ExitCode = code, Health = health\<rparr>"
  by (simp_all add: example_response_def)

lemma example_db_healthy:
  "healthy_container example_db_inspector (example_container ''cccccccccccccccc'' n)"
  by (simp add: healthy_container_def example_db_inspected example_response_fields)

text \<open>
  C6, as stated, fails when a container that is still starting comes before
  an unhealthy one: the second container is unhealthy, and the round of the
  required wait reports no error and goes on polling.
\<close>

theorem healthy_wait_polls_past_unhealthy:
  "example_db_inspector (ID (example_container ''bbbbbbbbbbbbbbbb'' ''2''))
     = Inr (example_response ''/shop-db-2'' ''running'' 0 (Some Unhealthy))
   \<and> poll_dependency example_db_inspector ''db'' ServiceConditionHealthy True
        [example_container ''aaaaaaaaaaaaaaaa'' ''1'', example_container ''bbbbbbbbbbbbbbbb'' ''2'']
      = None"
proof -
  have "isServiceHealthy example_db_inspector
          [example_container ''aaaaaaaaaaaaaaaa'' ''1'', example_container ''bbbbbbbbbbbbbbbb'' ''2'']
          False = (False, None)"
    using isServiceHealthy_decider [where inspect = example_db_inspector
        and x = "example_container ''aaaaaaaaaaaaaaaa'' ''1''"
        and r = "example_response ''/shop-db-1'' ''running'' 0 (Some Starting)"
        and st = "\<lparr>Status = ''running'', ExitCode = 0, Health = Some Starting\<rparr>"
        and cs = "[example_container ''bbbbbbbbbbbbbbbb'' ''2'']"]
    by (simp add: example_db_inspected example_response_fields health_distinct
        health_distinct [symmetric] del: isServiceHealthy.simps)
  then show ?thesis
    by (simp add: poll_healthy example_db_inspected)
qed

text \<open>
  C6, amended: a round of the wait for the condition service_healthy succeeds
  exactly when every observed container is inspected, has not exited and has
  the health status Healthy. Otherwise the first container, in the order of
  the list, that is not so decides, when it is inspected with a name and a
  state: exited, no health state (no healthcheck configured) or unhealthy make
  the round fail with an error, which ends the wait with a failure when
  required is true and with a skip and a warning when required is false; the
  health status Starting makes the round report not-yet-healthy without error,
  and the wait goes on with the next tick.
\<close>

theorem healthy_wait_first_decides:
  "((poll_dependency inspect dep ServiceConditionHealthy required waitingFor = Some Succeeded)
      = (\<forall>x \<in> set waitingFor. healthy_container inspect x))
   \<and> ((\<forall>y \<in> set pre. healthy_container inspect y) \<and> inspect (ID x) = Inr r
        \<and> InspectName r \<noteq> [] \<and> InspectState r = Some st \<longrightarrow>
        (Status st = ''exited'' \<longrightarrow>
           poll_dependency inspect dep ServiceConditionHealthy required (pre @ x # post)
             = (if required
                then Some (Failed (DependencyFailedToStart
                       (ContainerExitedError (tl (InspectName r)) (ExitCode st))))
                else Some SkippedWithWarning))
        \<and> (Status st \<noteq> ''exited'' \<and> Health st = None \<longrightarrow>
           poll_dependency inspect dep ServiceConditionHealthy required (pre @ x # post)
             = (if required
                then Some (Failed (DependencyFailedToStart (NoHealthcheck (tl (InspectName r)))))
                else Some SkippedWithWarning))
        \<and> (Status st \<noteq> ''exited'' \<and> Health st = Some Unhealthy \<longrightarrow>
           poll_dependency inspect dep ServiceConditionHealthy required (pre @ x # post)
             = (if required
                then Some (Failed (DependencyFailedToStart
                       (ContainerUnhealthy (tl (InspectName r)))))
                else Some SkippedWithWarning))
        \<and> (Status st \<noteq> ''exited'' \<and> Health st = Some Starting \<longrightarrow>
           poll_dependency inspect dep ServiceConditionHealthy required (pre @ x # post) = None
           \<and> wait_loop dep ServiceConditionHealthy required (pre @ x # post)
                (Tick inspect # ticks)
              = wait_loop dep ServiceConditionHealthy required (pre @ x # post) ticks))"
proof -
  have decide: "(\<forall>y \<in> set pre. healthy_container inspect y) \<and> inspect (ID x) = Inr r
        \<and> InspectName r \<noteq> [] \<and> InspectState r = Some st \<longrightarrow>
        (Status st = ''exited'' \<longrightarrow>
           poll_dependency inspect dep ServiceConditionHealthy required (pre @ x # post)
             = (if required
                then Some (Failed (DependencyFailedToStart
                       (ContainerExitedError (tl (InspectName r)) (ExitCode st))))
                else Some SkippedWithWarning))
        \<and> (Status st \<noteq> ''exited'' \<and> Health st = None \<longrightarrow>
           poll_dependency inspect dep ServiceConditionHealthy required (pre @ x # post)
             = (if required
                then Some (Failed (DependencyFailedToStart (NoHealthcheck (tl (InspectName r)))))
                else Some SkippedWithWarning))
        \<and> (Status st \<noteq> ''exited'' \<and> Health st = Some Unhealthy \<longrightarrow>
           poll_dependency inspect dep ServiceConditionHealthy required (pre @ x # post)
             = (if required
                then Some (Failed (DependencyFailedToStart
                       (ContainerUnhealthy (tl (InspectName r)))))
                else Some SkippedWithWarning))
        \<and> (Status st \<noteq> ''exited'' \<and> Health st = Some Starting \<longrightarrow>
           poll_dependency inspect dep ServiceConditionHealthy required (pre @ x # post) = None
           \<and> wait_loop dep ServiceConditionHealthy required (pre @ x # post)
                (Tick inspect # ticks)
              = wait_loop dep ServiceConditionHealthy required (pre @ x # post) ticks)"
  proof
    assume a: "(\<forall>y \<in> set pre. healthy_container inspect y) \<and> inspect (ID x) = Inr r
        \<and> InspectName r \<noteq> [] \<and> InspectState r = Some st"
    then have pre: "\<forall>y \<in> set pre. healthy_container inspect y"
      and i: "inspect (ID x) = Inr r" and n: "InspectName r \<noteq> []" and s: "InspectState r = Some st"
      by simp_all
    have h: "isServiceHealthy inspect (pre @ x # post) False =
       (if Status st = ''exited'' then
          (False, Some (ContainerExitedError (tl (InspectName r)) (ExitCode st)))
        else (case Health st of
                None \<Rightarrow> (False, Some (NoHealthcheck (tl (InspectName r))))
              | Some h \<Rightarrow>
                  if h = Healthy then isServiceHealthy inspect post False
                  else if h = Unhealthy then (False, Some (ContainerUnhealthy (tl (InspectName r))))
                  else if h = Starting then (False, None)
                  else (False, Some (UnexpectedHealthStatus (tl (InspectName r)) h))))"
      by (simp only: isServiceHealthy_prefix [OF pre] isServiceHealthy_decider [where inspect = inspect and x = x, OF i n s])
    show "(Status st = ''exited'' \<longrightarrow>
           poll_dependency inspect dep ServiceConditionHealthy required (pre @ x # post)
             = (if required
                then Some (Failed (DependencyFailedToStart
                       (ContainerExitedError (tl (InspectName r)) (ExitCode st))))
                else Some SkippedWithWarning))
        \<and> (Status st \<noteq> ''exited'' \<and> Health st = None \<longrightarrow>
           poll_dependency inspect dep ServiceConditionHealthy required (pre @ x # post)
             = (if required
                then Some (Failed (DependencyFailedToStart (NoHealthcheck (tl (InspectName r)))))
                else Some SkippedWithWarning))
        \<and> (Status st \<noteq> ''exited'' \<and> Health st = Some Unhealthy \<longrightarrow>
           poll_dependency inspect dep ServiceConditionHealthy required (pre @ x # post)
             = (if required
                then Some (Failed (DependencyFailedToStart
                       (ContainerUnhealthy (tl (InspectName r)))))
                else Some SkippedWithWarning))
        \<and> (Status st \<noteq> ''exited'' \<and> Health st = Some Starting \<longrightarrow>
           poll_dependency inspect dep ServiceConditionHealthy required (pre @ x # post) = None
           \<and> wait_loop dep ServiceConditionHealthy required (pre @ x # post)
                (Tick inspect # ticks)
              = wait_loop dep ServiceConditionHealthy required (pre @ x # post) ticks)"
      by (simp add: poll_healthy h health_distinct health_distinct [symmetric]
          del: isServiceHealthy.simps)
  qed
  show ?thesis by (intro conjI) (rule poll_healthy_succeeded, rule decide)
qed

text \<open>
  The amended C6 at the containers of db: a healthy container alone makes the
  wait succeed; after it, an exited container or one with no health state
  fails a required wait, an unhealthy one is skipped by an optional wait, and a
  starting one keeps the wait polling, also with an unhealthy container behind
  it.
\<close>

theorem healthy_wait_first_decides_witness:
  "poll_dependency example_db_inspector ''db'' ServiceConditionHealthy True
     [example_container ''cccccccccccccccc'' ''3''] = Some Succeeded
   \<and> poll_dependency example_db_inspector ''db'' ServiceConditionHealthy True
       ([example_container ''cccccccccccccccc'' ''3'']
          @ example_container ''dddddddddddddddd'' ''4'' # [])
      = Some (Failed (DependencyFailedToStart (ContainerExitedError ''shop-db-4'' 3)))
   \<and> poll_dependency example_db_inspector ''db'' ServiceConditionHealthy True
       ([example_container ''cccccccccccccccc'' ''3'']
          @ example_container ''eeeeeeeeeeeeeeee'' ''5'' # [])
      = Some (Failed (DependencyFailedToStart (NoHealthcheck ''shop-db-5'')))
   \<and> poll_dependency example_db_inspector ''db'' ServiceConditionHealthy False
       ([example_container ''cccccccccccccccc'' ''3'']
          @ example_container ''bbbbbbbbbbbbbbbb'' ''2'' # [])
      = Some SkippedWithWarning
   \<and> poll_dependency example_db_inspector ''db'' ServiceConditionHealthy True
       ([example_container ''cccccccccccccccc'' ''3'']
          @ example_container ''aaaaaaaaaaaaaaaa'' ''1''
          # [example_container ''bbbbbbbbbbbbbbbb'' ''2''])
      = None"
proof -
  let ?a = "example_container ''aaaaaaaaaaaaaaaa'' ''1''"
  let ?b = "example_container ''bbbbbbbbbbbbbbbb'' ''2''"
  let ?c = "example_container ''cccccccccccccccc'' ''3''"
  let ?d = "example_container ''dddddddddddddddd'' ''4''"
  let ?e = "example_container ''eeeeeeeeeeeeeeee'' ''5''"
  have pre: "\<forall>y \<in> set [?c]. healthy_container example_db_inspector y"
    by (simp add: example_db_healthy)
  from healthy_wait_first_decides [where inspect = example_db_inspector and dep = "''db''"
      and required = True and waitingFor = "[?c]"] pre
  have ok: "poll_dependency example_db_inspector ''db'' ServiceConditionHealthy True [?c]
              = Some Succeeded"
    by blast
  from healthy_wait_first_decides [where inspect = example_db_inspector and dep = "''db''"
      and required = True and pre = "[?c]" and x = ?d and post = "[]"
      and r = "example_response ''/shop-db-4'' ''exited'' 3 None"
      and st = "\<lparr>Status = ''exited'', ExitCode = 3, Health = None\<rparr>"]
    pre example_db_inspected(4) [of "''4''"]
  have ex: "poll_dependency example_db_inspector ''db'' ServiceConditionHealthy True
       ([?c] @ ?d # [])
      = Some (Failed (DependencyFailedToStart (ContainerExitedError ''shop-db-4'' 3)))"
    by (simp add: example_response_fields)
  from healthy_wait_first_decides [where inspect = example_db_inspector and dep = "''db''"
      and required = True and pre = "[?c]" and x = ?e and post = "[]"
      and r = "example_response ''/shop-db-5'' ''running'' 0 None"
      and st = "\<lparr>Status = ''running'', ExitCode = 0, Health = None\<rparr>"]
    pre example_db_inspected(5) [of "''5''"]
  have nh: "poll_dependency example_db_inspector ''db'' ServiceConditionHealthy True
       ([?c] @ ?e # [])
      = Some (Failed (DependencyFailedToStart (NoHealthcheck ''shop-db-5'')))"
    by (simp add: example_response_fields)
  from healthy_wait_first_decides [where inspect = example_db_inspector and dep = "''db''"
      and required = False and pre = "[?c]" and x = ?b and post = "[]"
      and r = "example_response ''/shop-db-2'' ''running'' 0 (Some Unhealthy)"
      and st = "\<lparr>Status = ''running'', ExitCode = 0, Health = Some Unhealthy\<rparr>"]
    pre example_db_inspected(2) [of "''2''"]
  have un: "poll_dependency example_db_inspector ''db'' ServiceConditionHealthy False
       ([?c] @ ?b # []) = Some SkippedWithWarning"
    by (simp add: example_response_fields)
  from healthy_wait_first_decides [where inspect = example_db_inspector and dep = "''db''"
      and required = True and pre = "[?c]" and x = ?a and post = "[?b]"
      and r = "example_response ''/shop-db-1'' ''running'' 0 (Some Starting)"
      and st = "\<lparr>Status = ''running'', ExitCode = 0, Health = Some Starting\<rparr>"]
    pre example_db_inspected(1) [of "''1''"]
  have st: "poll_dependency example_db_inspector ''db'' ServiceConditionHealthy True
       ([?c] @ ?a # [?b]) = None"
    by (simp add: example_response_fields)
  from ok ex nh un st show ?thesis by blast
qed

end
